theory Spec2Isabelle
  imports Complex_Main "HOL-Library.Sublist"
begin

section \<open>Strings as the scripts use them\<close>

text \<open>
  The scripts work on Python strings with two operations only: \<^verbatim>\<open>s.lower()\<close> and the
  substring test \<^verbatim>\<open>k in s\<close>. A string is a \<^typ>\<open>string\<close>; \<open>lower\<close> maps the letters
  \<open>A\<close>..\<open>Z\<close> to \<open>a\<close>..\<open>z\<close> and leaves every other character alone (code points beyond
  ASCII are outside this model). A cell of a data frame that pandas reports as missing
  (\<^verbatim>\<open>pd.isna\<close>) is \<open>None\<close>.
\<close>

definition lower_char :: "char \<Rightarrow> char" where
  "lower_char c =
     (case map_of (zip ''ABCDEFGHIJKLMNOPQRSTUVWXYZ'' ''abcdefghijklmnopqrstuvwxyz'') c of
        Some l \<Rightarrow> l
      | None \<Rightarrow> c)"

definition lower :: "string \<Rightarrow> string" where
  "lower s = map lower_char s"

text \<open>\<^verbatim>\<open>k in t\<close>: \<open>k\<close> starts at some position of \<open>t\<close>.\<close>

fun str_contains :: "string \<Rightarrow> string \<Rightarrow> bool" where
  "str_contains k [] = (k = [])"
| "str_contains k (c # t) = (prefix k (c # t) \<or> str_contains k t)"

text \<open>\<^verbatim>\<open>any(keyword in text_lower for keyword in KEYWORDS)\<close>\<close>

definition any_keyword_in :: "string list \<Rightarrow> string \<Rightarrow> bool" where
  "any_keyword_in keywords text_lower = list_ex (\<lambda>keyword. str_contains keyword text_lower) keywords"

section \<open>04_metrics_rq2.py: categories and sentiment of a comment\<close>

definition CORRECTIVE_KEYWORDS :: "string list" where
  "CORRECTIVE_KEYWORDS =
     [''bug'', ''error'', ''fix'', ''wrong'', ''incorrect'', ''mistake'', ''issue'', ''problem'',
      ''broken'', ''fails'', ''exception'', ''crash'', ''null'', ''undefined'']"

definition STYLE_KEYWORDS :: "string list" where
  "STYLE_KEYWORDS =
     [''style'', ''format'', ''indent'', ''spacing'', ''naming'', ''convention'', ''lint'',
      ''pep8'', ''pylint'', ''formatting'', ''whitespace'', ''semicolon'', ''brace'']"

definition SECURITY_KEYWORDS :: "string list" where
  "SECURITY_KEYWORDS =
     [''security'', ''vulnerability'', ''xss'', ''sql injection'', ''csrf'', ''auth'',
      ''authentication'', ''authorization'', ''password'', ''token'', ''secret'', ''key'',
      ''encrypt'', ''hash'', ''sanitize'', ''escape'', ''injection'']"

definition TESTING_KEYWORDS :: "string list" where
  "TESTING_KEYWORDS =
     [''test'', ''testing'', ''coverage'', ''unit test'', ''integration'', ''mock'',
      ''assert'', ''should test'', ''missing test'', ''test case'', ''scenario'']"

text \<open>
  \<open>categorize_comment\<close>: the list starts empty, each of the four tests appends its label,
  and \<open>other\<close> is appended when nothing was. A missing text returns the empty list before
  any of that.
\<close>

definition categorize_comment :: "string option \<Rightarrow> string list" where
  "categorize_comment comment_text =
     (case comment_text of
        None \<Rightarrow> []
      | Some s \<Rightarrow>
          (let text_lower = lower s;
               categories =
                 (if any_keyword_in CORRECTIVE_KEYWORDS text_lower then [''corrective''] else []) @
                 (if any_keyword_in STYLE_KEYWORDS text_lower then [''style''] else []) @
                 (if any_keyword_in SECURITY_KEYWORDS text_lower then [''security''] else []) @
                 (if any_keyword_in TESTING_KEYWORDS text_lower then [''testing''] else [])
           in if categories = [] then [''other''] else categories))"

definition positive_words :: "string list" where
  "positive_words =
     [''good'', ''great'', ''nice'', ''excellent'', ''perfect'', ''thanks'', ''thank you'',
      ''approved'', ''looks good'', ''well done'', ''lgtm'']"

definition negative_words :: "string list" where
  "negative_words =
     [''bad'', ''wrong'', ''incorrect'', ''should not'', ''don't'', ''cannot'', ''error'',
      ''issue'', ''problem'', ''concern'', ''worried'', ''disappointed'']"

text \<open>\<^verbatim>\<open>sum(1 for word in words if word in text_lower)\<close>\<close>

definition word_count :: "string list \<Rightarrow> string \<Rightarrow> nat" where
  "word_count words text_lower = length (filter (\<lambda>word. str_contains word text_lower) words)"

definition analyze_sentiment :: "string option \<Rightarrow> string" where
  "analyze_sentiment comment_text =
     (case comment_text of
        None \<Rightarrow> ''neutral''
      | Some s \<Rightarrow>
          (let text_lower = lower s;
               positive_count = word_count positive_words text_lower;
               negative_count = word_count negative_words text_lower
           in if positive_count > negative_count then ''positive''
              else if negative_count > positive_count then ''negative''
              else ''neutral''))"

subsection \<open>The rows of the comment table and their expansion\<close>

text \<open>
  A row of \<open>rq2_data\<close> as the script reads it: its index label, the PR it belongs to, the
  cell of the column \<open>id\<close> (\<open>None\<close> when the frame has no such column, so that
  \<^verbatim>\<open>row.get("id", idx)\<close> falls back to the index label) and the cell of the comment column.
  The script then adds the two columns \<open>categories\<close> and \<open>sentiment\<close>.
\<close>

record comment =
  idx :: int
  pr_id :: int
  id_cell :: "int option"
  body :: "string option"

record classified = comment +
  categories :: "string list"
  sentiment :: string

definition classify :: "comment \<Rightarrow> classified" where
  "classify row =
     \<lparr>idx = idx row, pr_id = pr_id row, id_cell = id_cell row, body = body row,
      categories = categorize_comment (body row),
      sentiment = analyze_sentiment (body row)\<rparr>"

record expanded =
  x_pr_id :: int
  x_comment_id :: int
  x_category :: string
  x_sentiment :: string
  has_multiple_categories :: bool

definition row_get_id :: "classified \<Rightarrow> int" where
  "row_get_id row = (case id_cell row of Some i \<Rightarrow> i | None \<Rightarrow> idx row)"

text \<open>The body of the loop over \<^verbatim>\<open>rq2_data.iterrows()\<close>: the rows one comment appends.\<close>

definition expand_row :: "classified \<Rightarrow> expanded list" where
  "expand_row row =
     (if length (categories row) > 0 then
        map (\<lambda>category.
               \<lparr>x_pr_id = pr_id row, x_comment_id = row_get_id row, x_category = category,
                x_sentiment = sentiment row,
                has_multiple_categories = (length (categories row) > 1)\<rparr>)
            (categories row)
      else
        [\<lparr>x_pr_id = pr_id row, x_comment_id = row_get_id row, x_category = ''other'',
          x_sentiment = sentiment row, has_multiple_categories = False\<rparr>])"

definition expanded_rows :: "comment list \<Rightarrow> expanded list" where
  "expanded_rows rq2_data = concat (map (\<lambda>row. expand_row (classify row)) rq2_data)"

text \<open>
  The reading of the sentiment rule that counts every occurrence of a phrase: the number of
  positions of the text at which the phrase starts, summed over the phrases of the list.
\<close>

fun occurrences :: "string \<Rightarrow> string \<Rightarrow> nat" where
  "occurrences k [] = (if k = [] then 1 else 0)"
| "occurrences k (c # t) = (if prefix k (c # t) then 1 else 0) + occurrences k t"

definition occurrence_count :: "string list \<Rightarrow> string \<Rightarrow> nat" where
  "occurrence_count words text_lower = sum_list (map (\<lambda>word. occurrences word text_lower) words)"

definition sentiment_by_occurrences :: "string \<Rightarrow> string" where
  "sentiment_by_occurrences s =
     (let p = occurrence_count positive_words (lower s);
          n = occurrence_count negative_words (lower s)
      in if p > n then ''positive'' else if n > p then ''negative'' else ''neutral'')"

section \<open>02_preprocess.py: the reviewer type of a pull request\<close>

text \<open>
  A row of \<open>pr_reviews\<close> or of \<open>pr_comments\<close>, reduced to the two cells the script can
  read: the PR the row is linked to and the login of its author. Either cell may be
  missing. A pass of the script works on the rows of a frame when the frame has both
  columns under names it knows, and is skipped otherwise: the argument of a pass is
  \<open>Some\<close> of the rows, or \<open>None\<close>.
\<close>

record activity =
  a_pr_id :: "int option"
  a_login :: "string option"

definition BOT_KEYWORDS :: "string list" where
  "BOT_KEYWORDS = [''copilot'', ''cursor'', ''codex'', ''claude'', ''devin'']"

text \<open>\<^verbatim>\<open>df[login_col].fillna("").astype(str)\<close>\<close>

definition fillna_str :: "string option \<Rightarrow> string" where
  "fillna_str l = (case l of None \<Rightarrow> [] | Some s \<Rightarrow> s)"

text \<open>
  \<^verbatim>\<open>df.groupby(pr_id_col)[login_col].apply(list)\<close>: one group per PR id that occurs, in
  increasing order of the ids; rows whose id is missing belong to no group; a group lists
  the logins of its rows in the order of the frame.
\<close>

definition group_keys :: "activity list \<Rightarrow> int list" where
  "group_keys df = sort (remdups (List.map_filter a_pr_id df))"

definition group_logins :: "activity list \<Rightarrow> int \<Rightarrow> string list" where
  "group_logins df pid = map (\<lambda>row. fillna_str (a_login row)) (filter (\<lambda>row. a_pr_id row = Some pid) df)"

definition grouped :: "activity list \<Rightarrow> (int \<times> string list) list" where
  "grouped df = map (\<lambda>pid. (pid, group_logins df pid)) (group_keys df)"

text \<open>\<^verbatim>\<open>any(k in (l or "").lower() for k in BOT_KEYWORDS)\<close>, and the same over a group.\<close>

definition is_bot_login :: "string \<Rightarrow> bool" where
  "is_bot_login l = list_ex (\<lambda>k. str_contains k (lower l)) BOT_KEYWORDS"

definition any_bot :: "string list \<Rightarrow> bool" where
  "any_bot logins = list_ex is_bot_login logins"

definition setdefault :: "(int \<rightharpoonup> string) \<Rightarrow> int \<Rightarrow> string \<Rightarrow> (int \<rightharpoonup> string)" where
  "setdefault m pid v = (case m pid of None \<Rightarrow> m(pid \<mapsto> v) | Some _ \<Rightarrow> m)"

text \<open>The loop over the groups of one frame, updating the dictionary.\<close>

fun analyse :: "(int \<times> string list) list \<Rightarrow> (int \<rightharpoonup> string) \<Rightarrow> (int \<rightharpoonup> string)" where
  "analyse [] m = m"
| "analyse ((pid, logins) # rest) m =
     analyse rest (if any_bot logins then m(pid \<mapsto> ''bot'') else setdefault m pid ''human'')"

definition analyse_frame :: "activity list option \<Rightarrow> (int \<rightharpoonup> string) \<Rightarrow> (int \<rightharpoonup> string)" where
  "analyse_frame frame m = (case frame of None \<Rightarrow> m | Some df \<Rightarrow> analyse (grouped df) m)"

text \<open>The dictionary after both passes: the reviews first, then the comments.\<close>

definition reviewer_type_map :: "activity list option \<Rightarrow> activity list option \<Rightarrow> (int \<rightharpoonup> string)" where
  "reviewer_type_map pr_reviews pr_comments =
     analyse_frame pr_comments (analyse_frame pr_reviews Map.empty)"

definition map_reviewer_type :: "(int \<rightharpoonup> string) \<Rightarrow> int \<Rightarrow> string" where
  "map_reviewer_type m pid = (case m pid of None \<Rightarrow> ''none'' | Some t \<Rightarrow> t)"

text \<open>
  For the statements below: the logins a pass gathers for a PR (none when the pass is
  skipped), and the two passes in the other order.
\<close>

definition logins_of :: "activity list option \<Rightarrow> int \<Rightarrow> string list" where
  "logins_of frame pid = (case frame of None \<Rightarrow> [] | Some df \<Rightarrow> group_logins df pid)"

definition reviewer_type_map_comments_first ::
    "activity list option \<Rightarrow> activity list option \<Rightarrow> (int \<rightharpoonup> string)" where
  "reviewer_type_map_comments_first pr_reviews pr_comments =
     analyse_frame pr_reviews (analyse_frame pr_comments Map.empty)"

subsection \<open>The frames as loaded\<close>

text \<open>
  A frame as the script loads it: the names of its columns and its rows. A row keeps the
  PR link and the author login it carries; whether the script reads them depends on the
  names of the columns that hold them.
\<close>

record collection =
  columns :: "string list"
  rows :: "activity list"

text \<open>\<^verbatim>\<open>_pick_login_col(df, candidates)\<close>: the first candidate that is a column of the frame.\<close>

definition pick_login_col :: "collection \<Rightarrow> string list \<Rightarrow> string option" where
  "pick_login_col df candidates = List.find (\<lambda>c. c \<in> set (columns df)) candidates"

definition reviews_login_candidates :: "string list" where
  "reviews_login_candidates =
     [''author_login'', ''user_login'', ''login'', ''reviewer_login'', ''actor_login'']"

definition comments_login_candidates :: "string list" where
  "comments_login_candidates =
     [''author_login'', ''user_login'', ''login'', ''commenter_login'', ''actor_login'', ''user'']"

text \<open>The column that links a row to its PR.\<close>

definition pr_id_col :: "collection \<Rightarrow> string option" where
  "pr_id_col df =
     (if ''pr_id'' \<in> set (columns df) then Some ''pr_id''
      else if ''pull_request_id'' \<in> set (columns df) then Some ''pull_request_id''
      else None)"

text \<open>
  The guard of a pass, \<^verbatim>\<open>pr_id_col is not None and login_col is not None\<close>, and what the
  pass works on.
\<close>

definition is_analysed :: "collection \<Rightarrow> string list \<Rightarrow> bool" where
  "is_analysed df candidates \<longleftrightarrow> pr_id_col df \<noteq> None \<and> pick_login_col df candidates \<noteq> None"

definition analysed :: "collection \<Rightarrow> string list \<Rightarrow> activity list option" where
  "analysed df candidates = (if is_analysed df candidates then Some (rows df) else None)"

text \<open>The value of the column \<open>reviewer_type\<close> for a PR, from the two frames as loaded.\<close>

definition reviewer_type :: "collection \<Rightarrow> collection \<Rightarrow> int \<Rightarrow> string" where
  "reviewer_type pr_reviews pr_comments pid =
     map_reviewer_type
       (reviewer_type_map (analysed pr_reviews reviews_login_candidates)
          (analysed pr_comments comments_login_candidates)) pid"

text \<open>The rows a frame has for a PR.\<close>

definition pr_rows :: "collection \<Rightarrow> int \<Rightarrow> activity list" where
  "pr_rows df pid = filter (\<lambda>row. a_pr_id row = Some pid) (rows df)"

section \<open>05_metrics_rq3.py: closed-loop against open-loop\<close>

text \<open>
  A row of \<open>rq3_data\<close> with the four columns the script reads; a missing cell is \<open>None\<close>.
  A frame is the list of its rows. Selecting rows by a boolean mask keeps each selected
  row together with its position in the frame, as pandas keeps its index label, so that two
  rows with the same cells remain two rows.
\<close>

record pr =
  closed_loop :: "int option"
  merged :: "int option"
  review_duration_hours :: "real option"
  n_comments :: "real option"

definition select :: "('a \<Rightarrow> bool) \<Rightarrow> 'a list \<Rightarrow> (nat \<times> 'a) list" where
  "select keep df = filter (\<lambda>(i, row). keep row) (enumerate 0 df)"

definition closed_loop_prs :: "pr list \<Rightarrow> (nat \<times> pr) list" where
  "closed_loop_prs rq3_data = select (\<lambda>row. closed_loop row = Some 1) rq3_data"

definition open_loop_prs :: "pr list \<Rightarrow> (nat \<times> pr) list" where
  "open_loop_prs rq3_data = select (\<lambda>row. closed_loop row = Some 0) rq3_data"

text \<open>\<^verbatim>\<open>frame[col].dropna()\<close>\<close>

definition dropna :: "('a \<Rightarrow> 'b option) \<Rightarrow> (nat \<times> 'a) list \<Rightarrow> 'b list" where
  "dropna col frame = List.map_filter (\<lambda>(i, row). col row) frame"

text \<open>
  The statistics are computed by pandas, scipy and the package \<open>cliffs_delta\<close>, none of
  them part of the repository. A cell of a result therefore records which library function
  the script calls and on which data; plain strings, numbers and lengths are themselves.
  \<open>Fmt\<close> is a value put through a format specification of an f-string.
\<close>

datatype cell =
    Str string
  | Num real
  | Len nat
  | Median "real list"
  | Mean "real list"
  | Std "real list"
  | Quantile "real list" real
  | Sum_of "real list"
  | MWU_statistic "real list" "real list"
  | MWU_p_value "real list" "real list"
  | Cliffs_d "real list" "real list"
  | Cliffs_interpretation "real list" "real list"
  | Chi2_statistic "nat list list"
  | Chi2_p_value "nat list list"
  | Chi2_dof "nat list list"
  | Fmt string cell
  | Fmt_effect cell cell

text \<open>A result is a dictionary literal: its keys in the order written, each with its cell.\<close>

type_synonym result = "(string \<times> cell) list"

definition closed_loop_duration :: "pr list \<Rightarrow> real list" where
  "closed_loop_duration rq3_data = dropna review_duration_hours (closed_loop_prs rq3_data)"

definition open_loop_duration :: "pr list \<Rightarrow> real list" where
  "open_loop_duration rq3_data = dropna review_duration_hours (open_loop_prs rq3_data)"

definition closed_loop_comments :: "pr list \<Rightarrow> real list" where
  "closed_loop_comments rq3_data = dropna n_comments (closed_loop_prs rq3_data)"

definition open_loop_comments :: "pr list \<Rightarrow> real list" where
  "open_loop_comments rq3_data = dropna n_comments (open_loop_prs rq3_data)"

definition merged_values :: "(nat \<times> pr) list \<Rightarrow> real list" where
  "merged_values frame = map real_of_int (dropna merged frame)"

subsection \<open>3. Descriptive metrics\<close>

definition closed_loop_proportion :: "pr list \<Rightarrow> real" where
  "closed_loop_proportion rq3_data =
     (let total_ai_prs = length rq3_data
      in if total_ai_prs > 0 then real (length (closed_loop_prs rq3_data)) / real total_ai_prs else 0)"

definition results_3_1 :: "pr list \<Rightarrow> result list" where
  "results_3_1 rq3_data =
     [[(''metric'', Str ''closed_loop_proportion''),
       (''value'', Num (closed_loop_proportion rq3_data)),
       (''closed_loop_count'', Len (length (closed_loop_prs rq3_data))),
       (''open_loop_count'', Len (length (open_loop_prs rq3_data))),
       (''total'', Len (length rq3_data))]]"

definition duration_row :: "string \<Rightarrow> real list \<Rightarrow> result" where
  "duration_row grp duration =
     [(''metric'', Str ''review_duration_hours''),
      (''group'', Str grp),
      (''median'', Median duration),
      (''mean'', Mean duration),
      (''std'', Std duration),
      (''q25'', Quantile duration 0.25),
      (''q75'', Quantile duration 0.75),
      (''count'', Len (length duration))]"

definition results_3_2 :: "pr list \<Rightarrow> result list" where
  "results_3_2 rq3_data =
     (if length (closed_loop_duration rq3_data) > 0
      then [duration_row ''closed-loop'' (closed_loop_duration rq3_data)] else []) @
     (if length (open_loop_duration rq3_data) > 0
      then [duration_row ''open-loop'' (open_loop_duration rq3_data)] else [])"

definition merge_rate :: "(nat \<times> pr) list \<Rightarrow> cell" where
  "merge_rate frame = (if length frame > 0 then Mean (merged_values frame) else Num 0)"

definition merge_row :: "string \<Rightarrow> (nat \<times> pr) list \<Rightarrow> result" where
  "merge_row grp frame =
     [(''metric'', Str ''merge_rate''),
      (''group'', Str grp),
      (''value'', merge_rate frame),
      (''count'', Len (length frame)),
      (''merged'', if length frame > 0 then Sum_of (merged_values frame) else Num 0)]"

definition results_3_3 :: "pr list \<Rightarrow> result list" where
  "results_3_3 rq3_data =
     [merge_row ''closed-loop'' (closed_loop_prs rq3_data),
      merge_row ''open-loop'' (open_loop_prs rq3_data)]"

definition comments_row :: "string \<Rightarrow> real list \<Rightarrow> result" where
  "comments_row grp comments =
     [(''metric'', Str ''n_comments''),
      (''group'', Str grp),
      (''median'', Median comments),
      (''mean'', Mean comments),
      (''std'', Std comments),
      (''count'', Len (length comments))]"

definition results_3_4 :: "pr list \<Rightarrow> result list" where
  "results_3_4 rq3_data =
     (if length (closed_loop_comments rq3_data) > 0
      then [comments_row ''closed-loop'' (closed_loop_comments rq3_data)] else []) @
     (if length (open_loop_comments rq3_data) > 0
      then [comments_row ''open-loop'' (open_loop_comments rq3_data)] else [])"

subsection \<open>4. Statistical tests\<close>

definition mann_whitney_row :: "string \<Rightarrow> real list \<Rightarrow> real list \<Rightarrow> result" where
  "mann_whitney_row metric a b =
     [(''metric'', Str metric),
      (''test'', Str ''Mann-Whitney U''),
      (''statistic'', MWU_statistic a b),
      (''p_value'', MWU_p_value a b),
      (''effect_size'', Cliffs_d a b),
      (''effect_interpretation'', Cliffs_interpretation a b)]"

definition results_4_1 :: "pr list \<Rightarrow> result list" where
  "results_4_1 rq3_data =
     (if length (closed_loop_duration rq3_data) > 0 \<and> length (open_loop_duration rq3_data) > 0
      then [mann_whitney_row ''review_duration_hours''
              (closed_loop_duration rq3_data) (open_loop_duration rq3_data)]
      else [])"

text \<open>
  \<^verbatim>\<open>pd.crosstab(rq3_data["closed_loop"], rq3_data["merged"])\<close>: the rows in which either cell
  is missing are left out; the table has one row per value of \<open>closed_loop\<close> that remains
  and one column per value of \<open>merged\<close> that remains, both in increasing order, and each
  cell counts the rows of the frame with that pair of values. \<open>size\<close> is rows times columns.
\<close>

definition crosstab_pairs :: "pr list \<Rightarrow> (int \<times> int) list" where
  "crosstab_pairs rq3_data =
     List.map_filter
       (\<lambda>row. case (closed_loop row, merged row) of
                 (Some c, Some m) \<Rightarrow> Some (c, m)
               | _ \<Rightarrow> None)
       rq3_data"

definition crosstab_index :: "pr list \<Rightarrow> int list" where
  "crosstab_index rq3_data = sort (remdups (map fst (crosstab_pairs rq3_data)))"

definition crosstab_columns :: "pr list \<Rightarrow> int list" where
  "crosstab_columns rq3_data = sort (remdups (map snd (crosstab_pairs rq3_data)))"

definition contingency_table :: "pr list \<Rightarrow> nat list list" where
  "contingency_table rq3_data =
     map (\<lambda>c. map (\<lambda>m. count_list (crosstab_pairs rq3_data) (c, m)) (crosstab_columns rq3_data))
       (crosstab_index rq3_data)"

definition table_size :: "pr list \<Rightarrow> nat" where
  "table_size rq3_data = length (crosstab_index rq3_data) * length (crosstab_columns rq3_data)"

definition results_4_2 :: "pr list \<Rightarrow> result list" where
  "results_4_2 rq3_data =
     (if table_size rq3_data > 0
      then [[(''metric'', Str ''merge_rate''),
             (''test'', Str ''Chi-square''),
             (''statistic'', Chi2_statistic (contingency_table rq3_data)),
             (''p_value'', Chi2_p_value (contingency_table rq3_data)),
             (''degrees_of_freedom'', Chi2_dof (contingency_table rq3_data))]]
      else [])"

definition results_4_3 :: "pr list \<Rightarrow> result list" where
  "results_4_3 rq3_data =
     (if length (closed_loop_comments rq3_data) > 0 \<and> length (open_loop_comments rq3_data) > 0
      then [mann_whitney_row ''n_comments''
              (closed_loop_comments rq3_data) (open_loop_comments rq3_data)]
      else [])"

text \<open>The list \<open>results\<close> when the script reaches its section 5.\<close>

definition results :: "pr list \<Rightarrow> result list" where
  "results rq3_data =
     results_3_1 rq3_data @ results_3_2 rq3_data @ results_3_3 rq3_data @ results_3_4 rq3_data @
     results_4_1 rq3_data @ results_4_2 rq3_data @ results_4_3 rq3_data"

text \<open>Reading a result: the rows of a metric that describe a group, and those of a test.\<close>

definition is_description :: "string \<Rightarrow> string \<Rightarrow> result \<Rightarrow> bool" where
  "is_description metric grp r =
     (map_of r ''metric'' = Some (Str metric) \<and> map_of r ''group'' = Some (Str grp))"

definition is_test :: "string \<Rightarrow> string \<Rightarrow> result \<Rightarrow> bool" where
  "is_test metric test r =
     (map_of r ''metric'' = Some (Str metric) \<and> map_of r ''test'' = Some (Str test))"

text \<open>
  A result has a key when the dictionary literal lists it. A result reports a rank-sum test
  when its test is the Mann-Whitney U test or it carries an effect size.
\<close>

definition has_key :: "string \<Rightarrow> result \<Rightarrow> bool" where
  "has_key k r = (k \<in> fst ` set r)"

definition reports_rank_sum :: "result \<Rightarrow> bool" where
  "reports_rank_sum r =
     (map_of r ''test'' = Some (Str ''Mann-Whitney U'') \<or> has_key ''effect_size'' r \<or>
      has_key ''effect_interpretation'' r)"

subsection \<open>5. The formatted summary\<close>

text \<open>
  The script appends to seven column lists in step; a row of the summary is one such step.
\<close>

record summary_row =
  Metric :: string
  Closed_Loop_Median :: cell
  Open_Loop_Median :: cell
  Closed_Loop_Mean :: cell
  Open_Loop_Mean :: cell
  P_Value :: cell
  Effect_Size :: cell

definition metric_summary :: "string \<Rightarrow> real list \<Rightarrow> real list \<Rightarrow> summary_row" where
  "metric_summary name a b =
     (if length a > 0 \<and> length b > 0 then
        \<lparr>Metric = name,
         Closed_Loop_Median = Fmt ''.2f'' (Median a),
         Open_Loop_Median = Fmt ''.2f'' (Median b),
         Closed_Loop_Mean = Fmt ''.2f'' (Mean a),
         Open_Loop_Mean = Fmt ''.2f'' (Mean b),
         P_Value = Fmt ''.4f'' (MWU_p_value a b),
         Effect_Size = Fmt_effect (Fmt ''.3f'' (Cliffs_d a b)) (Cliffs_interpretation a b)\<rparr>
      else
        \<lparr>Metric = name,
         Closed_Loop_Median = Str ''N/A'', Open_Loop_Median = Str ''N/A'',
         Closed_Loop_Mean = Str ''N/A'', Open_Loop_Mean = Str ''N/A'',
         P_Value = Str ''N/A'', Effect_Size = Str ''N/A''\<rparr>)"

definition summary :: "pr list \<Rightarrow> summary_row list" where
  "summary rq3_data =
     [\<lparr>Metric = ''Closed-Loop Proportion'',
       Closed_Loop_Median = Fmt ''.2%'' (Num (closed_loop_proportion rq3_data)),
       Open_Loop_Median = Str ''N/A'',
       Closed_Loop_Mean = Str ''N/A'', Open_Loop_Mean = Str ''N/A'',
       P_Value = Str ''N/A'', Effect_Size = Str ''N/A''\<rparr>,
      metric_summary ''Review Duration (hours)''
        (closed_loop_duration rq3_data) (open_loop_duration rq3_data),
      \<lparr>Metric = ''Merge Rate'',
       Closed_Loop_Median = Fmt ''.2%'' (merge_rate (closed_loop_prs rq3_data)),
       Open_Loop_Median = Fmt ''.2%'' (merge_rate (open_loop_prs rq3_data)),
       Closed_Loop_Mean = Str ''N/A'', Open_Loop_Mean = Str ''N/A'',
       P_Value = (if table_size rq3_data > 0
                  then Fmt ''.4f'' (Chi2_p_value (contingency_table rq3_data))
                  else Str ''N/A''),
       Effect_Size = Str ''N/A''\<rparr>,
      metric_summary ''Number of Comments''
        (closed_loop_comments rq3_data) (open_loop_comments rq3_data)]"

section \<open>Substring tests\<close>

lemma str_contains_iff: "str_contains k t \<longleftrightarrow> (\<exists>ps ss. t = ps @ k @ ss)"
proof -
  have "str_contains k t \<longleftrightarrow> sublist k t"
    by (induction t) (auto simp: sublist_Cons_right)
  then show ?thesis by (simp add: sublist_def)
qed

lemma any_keyword_in_iff:
  "any_keyword_in ks t \<longleftrightarrow> (\<exists>k \<in> set ks. \<exists>ps ss. t = ps @ k @ ss)"
  by (simp add: any_keyword_in_def list_ex_iff str_contains_iff)

lemma card_filter_distinct: "distinct ws \<Longrightarrow> card {w \<in> set ws. P w} = length (filter P ws)"
  using distinct_card[of "filter P ws"] by simp

lemma word_count_card:
  "distinct ws \<Longrightarrow> word_count ws t = card {w \<in> set ws. \<exists>ps ss. t = ps @ w @ ss}"
  by (simp add: word_count_def card_filter_distinct str_contains_iff)

lemma distinct_positive_words: "distinct positive_words"
  by (simp add: positive_words_def)

lemma distinct_negative_words: "distinct negative_words"
  by (simp add: negative_words_def)

section \<open>Sentiment\<close>

text \<open>
  C1, as stated, fails. Counting every occurrence, the text \<open>good good bad\<close> has two
  positive occurrences and one negative one, which the claim calls positive; the function
  returns neutral, because a phrase counts once however often it occurs.
\<close>

theorem sentiment_occurrences_counterexample:
  "occurrence_count positive_words (lower ''good good bad'') = 2
   \<and> occurrence_count negative_words (lower ''good good bad'') = 1
   \<and> sentiment_by_occurrences ''good good bad'' = ''positive''
   \<and> analyze_sentiment (Some ''good good bad'') = ''neutral''"
  by code_simp

text \<open>
  C1, amended: for every text that is not missing, the sentiment compares the number of
  positive phrases that occur in the lower-cased text as a contiguous substring with the
  number of negative phrases that do, each phrase counted at most once: more positive
  phrases gives positive, more negative ones negative, a tie (zero to zero included)
  neutral. A phrase of several words occurs only as a whole, blanks included.
\<close>

theorem analyze_sentiment_counts_phrases:
  "analyze_sentiment (Some s) =
     (if card {w \<in> set positive_words. \<exists>ps ss. lower s = ps @ w @ ss}
           > card {w \<in> set negative_words. \<exists>ps ss. lower s = ps @ w @ ss} then ''positive''
      else if card {w \<in> set negative_words. \<exists>ps ss. lower s = ps @ w @ ss}
           > card {w \<in> set positive_words. \<exists>ps ss. lower s = ps @ w @ ss} then ''negative''
      else ''neutral'')"
  by (simp add: analyze_sentiment_def Let_def
      word_count_card[OF distinct_positive_words] word_count_card[OF distinct_negative_words])

theorem analyze_sentiment_counts_phrases_witness:
  "card {w \<in> set positive_words. \<exists>ps ss. lower ''LGTM, great work'' = ps @ w @ ss}
     > card {w \<in> set negative_words. \<exists>ps ss. lower ''LGTM, great work'' = ps @ w @ ss}
   \<and> analyze_sentiment (Some ''LGTM, great work'') = ''positive''"
proof -
  have a: "analyze_sentiment (Some ''LGTM, great work'') = ''positive''" by code_simp
  show ?thesis
    using analyze_sentiment_counts_phrases[of "''LGTM, great work''"] a
    by (auto split: if_splits)
qed

section \<open>Categories\<close>

lemma categorize_comment_distinct: "distinct (categorize_comment c)"
  by (cases c) (simp_all add: categorize_comment_def Let_def)

lemma categorize_comment_Nil: "categorize_comment c = [] \<longleftrightarrow> c = None"
  by (cases c) (simp_all add: categorize_comment_def Let_def)

text \<open>
  C2, as stated, fails: for a missing text \<open>categorize_comment\<close> returns the empty list,
  not the list holding \<open>other\<close>.
\<close>

theorem missing_text_counterexample:
  "set (categorize_comment None) \<noteq> {''other''}"
  by (simp add: categorize_comment_def)

text \<open>
  C2, amended: for a missing text \<open>categorize_comment\<close> returns no category at all and
  \<open>analyze_sentiment\<close> returns neutral; the label \<open>other\<close> appears only in the expansion,
  where such a comment contributes exactly one row, with category \<open>other\<close>, sentiment
  neutral and the flag for several categories unset.
\<close>

theorem missing_text_classification:
  "categorize_comment None = [] \<and> analyze_sentiment None = ''neutral'' \<and>
   (body row = None \<longrightarrow>
      expand_row (classify row) =
        [\<lparr>x_pr_id = pr_id row,
          x_comment_id = (case id_cell row of Some i \<Rightarrow> i | None \<Rightarrow> idx row),
          x_category = ''other'', x_sentiment = ''neutral'',
          has_multiple_categories = False\<rparr>])"
  by (simp add: categorize_comment_def analyze_sentiment_def expand_row_def classify_def
      row_get_id_def split: option.splits)

theorem missing_text_classification_witness:
  "body \<lparr>idx = 3, pr_id = 7, id_cell = None, body = None\<rparr> = None \<and>
   expand_row (classify \<lparr>idx = 3, pr_id = 7, id_cell = None, body = None\<rparr>) =
     [\<lparr>x_pr_id = 7, x_comment_id = 3, x_category = ''other'', x_sentiment = ''neutral'',
       has_multiple_categories = False\<rparr>]"
  using missing_text_classification[of "\<lparr>idx = 3, pr_id = 7, id_cell = None, body = None\<rparr>"]
  by simp

lemma categorize_comment_member:
  "''style'' \<in> set (categorize_comment (Some s)) \<longleftrightarrow> any_keyword_in STYLE_KEYWORDS (lower s)"
  "''testing'' \<in> set (categorize_comment (Some s)) \<longleftrightarrow> any_keyword_in TESTING_KEYWORDS (lower s)"
  by (simp_all add: categorize_comment_def Let_def)

lemma categorize_comment_both:
  assumes "any_keyword_in CORRECTIVE_KEYWORDS (lower s)"
    and "any_keyword_in SECURITY_KEYWORDS (lower s)"
  shows "categorize_comment (Some s) =
           ''corrective'' # (if any_keyword_in STYLE_KEYWORDS (lower s) then [''style''] else []) @
           ''security'' # (if any_keyword_in TESTING_KEYWORDS (lower s) then [''testing''] else [])"
  using assms by (simp add: categorize_comment_def Let_def)

text \<open>
  C3, as stated, fails when "containing exactly" is read as equality: a text with a
  corrective and a security keyword may hold a style or a testing keyword too, and then
  carries more than the two labels.
\<close>

theorem corrective_security_counterexample:
  "any_keyword_in CORRECTIVE_KEYWORDS (lower ''Fix the auth test'') \<and>
   any_keyword_in SECURITY_KEYWORDS (lower ''Fix the auth test'') \<and>
   categorize_comment (Some ''Fix the auth test'') = [''corrective'', ''security'', ''testing''] \<and>
   set (categorize_comment (Some ''Fix the auth test'')) \<noteq> {''corrective'', ''security''}"
proof -
  have e: "categorize_comment (Some ''Fix the auth test'') = [''corrective'', ''security'', ''testing'']"
    by code_simp
  have c: "any_keyword_in CORRECTIVE_KEYWORDS (lower ''Fix the auth test'')" by code_simp
  have k: "any_keyword_in SECURITY_KEYWORDS (lower ''Fix the auth test'')" by code_simp
  have m: "''testing'' \<in> set (categorize_comment (Some ''Fix the auth test''))"
    unfolding e by simp
  have n: "''testing'' \<notin> {''corrective'', ''security''}" by simp
  from m n have "set (categorize_comment (Some ''Fix the auth test'')) \<noteq> {''corrective'', ''security''}"
    by metis
  with e c k show ?thesis by blast
qed

text \<open>
  C3, amended: for every comment text that contains a corrective keyword and a security
  keyword as case-insensitive substrings, the category set contains both \<open>corrective\<close>
  and \<open>security\<close>; it is exactly these two if and only if the text contains no style
  keyword and no testing keyword; the comment expands to at least two rows and every one of
  them has \<open>has_multiple_categories\<close> set.
\<close>

theorem corrective_and_security:
  assumes "\<exists>k \<in> set CORRECTIVE_KEYWORDS. \<exists>ps ss. lower s = ps @ k @ ss"
    and "\<exists>k \<in> set SECURITY_KEYWORDS. \<exists>ps ss. lower s = ps @ k @ ss"
    and "body row = Some s"
  shows "{''corrective'', ''security''} \<subseteq> set (categorize_comment (Some s)) \<and>
         (set (categorize_comment (Some s)) = {''corrective'', ''security''} \<longleftrightarrow>
            \<not> (\<exists>k \<in> set STYLE_KEYWORDS. \<exists>ps ss. lower s = ps @ k @ ss) \<and>
            \<not> (\<exists>k \<in> set TESTING_KEYWORDS. \<exists>ps ss. lower s = ps @ k @ ss)) \<and>
         length (expand_row (classify row)) \<ge> 2 \<and>
         (\<forall>x \<in> set (expand_row (classify row)). has_multiple_categories x)"
proof -
  from assms(1,2) have c: "any_keyword_in CORRECTIVE_KEYWORDS (lower s)"
    and k: "any_keyword_in SECURITY_KEYWORDS (lower s)"
    by (simp_all add: any_keyword_in_iff)
  note eq = categorize_comment_both[OF c k]
  have sub: "{''corrective'', ''security''} \<subseteq> set (categorize_comment (Some s))"
    by (simp add: eq)
  have exact: "set (categorize_comment (Some s)) = {''corrective'', ''security''} \<longleftrightarrow>
      \<not> any_keyword_in STYLE_KEYWORDS (lower s) \<and> \<not> any_keyword_in TESTING_KEYWORDS (lower s)"
  proof
    assume a: "set (categorize_comment (Some s)) = {''corrective'', ''security''}"
    have "''style'' \<notin> set (categorize_comment (Some s))" unfolding a by simp
    moreover have "''testing'' \<notin> set (categorize_comment (Some s))" unfolding a by simp
    ultimately show "\<not> any_keyword_in STYLE_KEYWORDS (lower s) \<and> \<not> any_keyword_in TESTING_KEYWORDS (lower s)"
      by (simp add: categorize_comment_member)
  next
    assume "\<not> any_keyword_in STYLE_KEYWORDS (lower s) \<and> \<not> any_keyword_in TESTING_KEYWORDS (lower s)"
    then show "set (categorize_comment (Some s)) = {''corrective'', ''security''}"
      by (simp add: eq)
  qed
  have len: "length (categorize_comment (Some s)) \<ge> 2"
    by (simp add: eq)
  have cats: "categories (classify row) = categorize_comment (Some s)"
    using assms(3) by (simp add: classify_def)
  have rows: "length (expand_row (classify row)) \<ge> 2 \<and>
      (\<forall>x \<in> set (expand_row (classify row)). has_multiple_categories x)"
    using len unfolding expand_row_def cats by auto
  show ?thesis using sub exact rows by (simp add: any_keyword_in_iff)
qed

theorem corrective_and_security_witness:
  "(\<exists>k \<in> set CORRECTIVE_KEYWORDS. \<exists>ps ss. lower ''Broken auth'' = ps @ k @ ss) \<and>
   (\<exists>k \<in> set SECURITY_KEYWORDS. \<exists>ps ss. lower ''Broken auth'' = ps @ k @ ss) \<and>
   {''corrective'', ''security''} \<subseteq> set (categorize_comment (Some ''Broken auth'')) \<and>
   length (expand_row (classify \<lparr>idx = 0, pr_id = 1, id_cell = Some 9,
             body = Some ''Broken auth''\<rparr>)) \<ge> 2"
proof -
  have "any_keyword_in CORRECTIVE_KEYWORDS (lower ''Broken auth'')"
    by code_simp
  then have h1: "\<exists>k \<in> set CORRECTIVE_KEYWORDS. \<exists>ps ss. lower ''Broken auth'' = ps @ k @ ss"
    by (simp only: any_keyword_in_iff)
  have "any_keyword_in SECURITY_KEYWORDS (lower ''Broken auth'')"
    by code_simp
  then have h2: "\<exists>k \<in> set SECURITY_KEYWORDS. \<exists>ps ss. lower ''Broken auth'' = ps @ k @ ss"
    by (simp only: any_keyword_in_iff)
  have h3: "body \<lparr>idx = 0, pr_id = 1, id_cell = Some 9, body = Some ''Broken auth''\<rparr>
            = Some ''Broken auth''"
    by simp
  note t = corrective_and_security[OF h1 h2 h3]
  from t have a: "{''corrective'', ''security''} \<subseteq> set (categorize_comment (Some ''Broken auth''))"
    by (rule conjunct1)
  from t have b: "length (expand_row (classify \<lparr>idx = 0, pr_id = 1, id_cell = Some 9,
             body = Some ''Broken auth''\<rparr>)) \<ge> 2"
    by (elim conjE)
  show ?thesis by (intro conjI h1 h2 a b)
qed

section \<open>Expansion\<close>

lemma map_of_two:
  "length xs = 2 \<Longrightarrow> \<forall>x \<in> set xs. f x = c \<Longrightarrow> map f xs = [c, c]"
  by (auto simp: length_Suc_conv numeral_2_eq_2)

text \<open>
  C9, as stated, fails for a comment whose text is missing: it carries no category label,
  yet the expansion gives it one row.
\<close>

theorem expansion_counterexample:
  "length (categories (classify \<lparr>idx = 0, pr_id = 7, id_cell = None, body = None\<rparr>)) = 0 \<and>
   length (expand_row (classify \<lparr>idx = 0, pr_id = 7, id_cell = None, body = None\<rparr>)) = 1"
  by (simp add: classify_def expand_row_def categorize_comment_def)

text \<open>
  C9, amended: for every classified comment whose text is not missing, the expansion
  produces exactly one row per category label the comment carries, in the order of the
  labels, which are pairwise different; a comment whose text is missing carries no label
  and contributes exactly one row, labelled \<open>other\<close>. Every row of a comment carries the
  comment's sentiment and its PR, and \<open>has_multiple_categories\<close> is set exactly when the
  comment has two or more labels.
\<close>

theorem expansion_rows:
  "map x_category (expand_row (classify row)) =
     (if body row = None then [''other''] else categories (classify row)) \<and>
   distinct (categories (classify row)) \<and>
   (body row = None \<longleftrightarrow> categories (classify row) = []) \<and>
   (\<forall>x \<in> set (expand_row (classify row)).
      x_sentiment x = sentiment (classify row) \<and>
      x_pr_id x = pr_id row \<and>
      (has_multiple_categories x \<longleftrightarrow> 2 \<le> length (categories (classify row))))"
proof -
  have cats: "categories (classify row) = categorize_comment (body row)"
    and pr: "pr_id (classify row) = pr_id row"
    by (simp_all add: classify_def)
  have nil: "body row = None \<longleftrightarrow> categories (classify row) = []"
    by (simp add: cats categorize_comment_Nil)
  have m: "map x_category (expand_row (classify row)) =
     (if body row = None then [''other''] else categories (classify row))"
    using nil by (simp add: expand_row_def comp_def)
  have d: "distinct (categories (classify row))"
    by (simp add: cats categorize_comment_distinct)
  have r: "\<forall>x \<in> set (expand_row (classify row)).
      x_sentiment x = sentiment (classify row) \<and>
      x_pr_id x = pr_id row \<and>
      (has_multiple_categories x \<longleftrightarrow> 2 \<le> length (categories (classify row)))"
    unfolding expand_row_def pr by auto
  show ?thesis by (intro conjI m d nil r)
qed

theorem expansion_rows_witness:
  "map x_category (expand_row (classify \<lparr>idx = 0, pr_id = 1, id_cell = Some 9,
       body = Some ''Fix the auth''\<rparr>)) = [''corrective'', ''security''] \<and>
   map has_multiple_categories (expand_row (classify \<lparr>idx = 0, pr_id = 1, id_cell = Some 9,
       body = Some ''Fix the auth''\<rparr>)) = [True, True] \<and>
   map x_sentiment (expand_row (classify \<lparr>idx = 0, pr_id = 1, id_cell = Some 9,
       body = Some ''Fix the auth''\<rparr>)) = [''neutral'', ''neutral'']"
proof -
  let ?r = "\<lparr>idx = 0, pr_id = 1, id_cell = Some 9, body = Some ''Fix the auth''\<rparr>"
  let ?E = "expand_row (classify ?r)"
  have c: "categorize_comment (Some ''Fix the auth'') = [''corrective'', ''security'']"
    by code_simp
  have s: "analyze_sentiment (Some ''Fix the auth'') = ''neutral''"
    by code_simp
  have cats: "categories (classify ?r) = [''corrective'', ''security'']"
    by (simp add: classify_def c)
  have sent: "sentiment (classify ?r) = ''neutral''"
    by (simp add: classify_def s)
  have b: "(body ?r = None) = False" by simp
  note t = expansion_rows[of ?r]
  from t have "map x_category ?E =
      (if body ?r = None then [''other''] else categories (classify ?r))"
    by (rule conjunct1)
  then have m: "map x_category ?E = [''corrective'', ''security'']"
    by (simp only: b cats if_False)
  from t have r: "\<forall>x \<in> set ?E.
      x_sentiment x = sentiment (classify ?r) \<and> x_pr_id x = pr_id ?r \<and>
      (has_multiple_categories x \<longleftrightarrow> 2 \<le> length (categories (classify ?r)))"
    by (elim conjE)
  have l: "2 \<le> length (categories (classify ?r))" by (simp add: cats)
  have a: "\<forall>x \<in> set ?E. has_multiple_categories x = True \<and> x_sentiment x = ''neutral''"
  proof
    fix x assume x: "x \<in> set ?E"
    from r x have "x_sentiment x = sentiment (classify ?r)"
      and "has_multiple_categories x \<longleftrightarrow> 2 \<le> length (categories (classify ?r))"
      by fast+
    with l sent show "has_multiple_categories x = True \<and> x_sentiment x = ''neutral''"
      by (simp only: simp_thms)
  qed
  from m have "length (map x_category ?E) = length [''corrective'', ''security'']"
    by (rule arg_cong)
  then have len: "length ?E = 2" by simp
  from a have a1: "\<forall>x \<in> set ?E. has_multiple_categories x = True"
    and a2: "\<forall>x \<in> set ?E. x_sentiment x = ''neutral''"
    by fast+
  have h: "map has_multiple_categories ?E = [True, True]"
    using len a1 by (rule map_of_two)
  have n: "map x_sentiment ?E = [''neutral'', ''neutral'']"
    using len a2 by (rule map_of_two)
  show ?thesis by (intro conjI m h n)
qed

section \<open>Reviewer type\<close>

lemma analyse_lookup:
  "distinct (map fst gs) \<Longrightarrow>
   analyse gs m k =
     (case map_of gs k of
        None \<Rightarrow> m k
      | Some logins \<Rightarrow>
          if any_bot logins then Some ''bot''
          else (case m k of None \<Rightarrow> Some ''human'' | Some t \<Rightarrow> Some t))"
proof (induction gs arbitrary: m)
  case Nil
  then show ?case by simp
next
  case (Cons g gs)
  obtain pid logins where g: "g = (pid, logins)" by (cases g)
  from Cons.prems g have d: "distinct (map fst gs)" and nin: "pid \<notin> fst ` set gs" by auto
  from nin have none: "map_of gs pid = None" by (simp add: map_of_eq_None_iff)
  show ?case
  proof (cases "k = pid")
    case True
    then show ?thesis using g none Cons.IH[OF d]
      by (simp add: setdefault_def split: option.splits)
  next
    case False
    then show ?thesis using g Cons.IH[OF d]
      by (simp add: setdefault_def split: option.splits)
  qed
qed

lemma set_group_keys: "set (group_keys df) = {k. \<exists>row \<in> set df. a_pr_id row = Some k}"
  by (force simp: group_keys_def map_filter_def)

lemma distinct_group_keys: "distinct (group_keys df)"
  by (simp add: group_keys_def)

lemma group_logins_Nil: "group_logins df k = [] \<longleftrightarrow> \<not> (\<exists>row \<in> set df. a_pr_id row = Some k)"
  by (auto simp: group_logins_def filter_empty_conv)

lemma map_of_grouped:
  "map_of (grouped df) k = (if group_logins df k = [] then None else Some (group_logins df k))"
proof -
  have "map_of (map (\<lambda>pid. (pid, f pid)) ks) k = (if k \<in> set ks then Some (f k) else None)"
    for f :: "int \<Rightarrow> string list" and ks
    by (induction ks) auto
  then have "map_of (grouped df) k =
      (if k \<in> set (group_keys df) then Some (group_logins df k) else None)"
    by (simp add: grouped_def)
  then show ?thesis by (simp add: set_group_keys group_logins_Nil)
qed

lemma distinct_grouped: "distinct (map fst (grouped df))"
  by (simp add: grouped_def comp_def distinct_group_keys)

lemma analyse_frame_lookup:
  "analyse_frame frame m k =
     (if logins_of frame k = [] then m k
      else if any_bot (logins_of frame k) then Some ''bot''
      else (case m k of None \<Rightarrow> Some ''human'' | Some t \<Rightarrow> Some t))"
  by (cases frame)
     (simp_all add: analyse_frame_def logins_of_def analyse_lookup[OF distinct_grouped] map_of_grouped)

lemma any_bot_append: "any_bot (xs @ ys) \<longleftrightarrow> any_bot xs \<or> any_bot ys"
  by (auto simp: any_bot_def list_ex_iff)

lemma any_bot_Nil: "\<not> any_bot []"
  by (simp add: any_bot_def)

lemma any_bot_iff:
  "any_bot ls \<longleftrightarrow>
     (\<exists>l \<in> set ls. \<exists>k \<in> set BOT_KEYWORDS. \<exists>ps ss. lower l = ps @ k @ ss)"
  by (simp add: any_bot_def is_bot_login_def list_ex_iff str_contains_iff)

lemma reviewer_type_label:
  "map_reviewer_type (reviewer_type_map R C) p =
     (if any_bot (logins_of R p @ logins_of C p) then ''bot''
      else if logins_of R p @ logins_of C p \<noteq> [] then ''human'' else ''none'')"
  by (auto simp: map_reviewer_type_def reviewer_type_map_def analyse_frame_lookup
      any_bot_append any_bot_Nil)

lemma reviewer_type_order:
  "reviewer_type_map_comments_first R C p = reviewer_type_map R C p"
  by (auto simp: reviewer_type_map_comments_first_def reviewer_type_map_def analyse_frame_lookup
      any_bot_Nil)

lemma logins_of_analysed:
  "logins_of (analysed df candidates) p =
     (if is_analysed df candidates then map (\<lambda>row. fillna_str (a_login row)) (pr_rows df p)
      else [])"
  by (simp add: logins_of_def analysed_def group_logins_def pr_rows_def)

lemma reviewer_type_none_iff:
  "map_reviewer_type (reviewer_type_map R C) p = ''none'' \<longleftrightarrow> logins_of R p @ logins_of C p = []"
proof (cases "logins_of R p @ logins_of C p = []")
  case True
  then have "\<not> any_bot (logins_of R p @ logins_of C p)" by (simp add: any_bot_def)
  with True show ?thesis by (simp add: reviewer_type_label)
next
  case False
  then show ?thesis by (simp add: reviewer_type_label)
qed

lemma is_bot_login_empty: "\<not> is_bot_login []"
  by (simp add: is_bot_login_def BOT_KEYWORDS_def lower_def)

lemma reviewer_type_human:
  assumes ne: "logins_of R p @ logins_of C p \<noteq> []"
    and empty: "\<forall>l \<in> set (logins_of R p @ logins_of C p). l = []"
  shows "map_reviewer_type (reviewer_type_map R C) p = ''human''"
proof -
  let ?ls = "logins_of R p @ logins_of C p"
  have "\<not> any_bot ?ls"
  proof
    assume "any_bot ?ls"
    then obtain l where l: "l \<in> set ?ls" and bl: "is_bot_login l"
      unfolding any_bot_def list_ex_iff by blast
    from l empty have "l = []" by blast
    with bl is_bot_login_empty show False by simp
  qed
  with ne show ?thesis by (simp add: reviewer_type_label)
qed

text \<open>
  C4: for every PR, with the logins gathered for it from the reviews and from the comments
  (a frame the script skips contributes none), the label is \<open>bot\<close> if some login contains
  a bot keyword once lower-cased, whatever the other logins are; otherwise \<open>human\<close> if at
  least one login was gathered from either frame; otherwise \<open>none\<close>. Processing the
  comments before the reviews gives the same dictionary entry.
\<close>

theorem attribution_label:
  "map_reviewer_type (reviewer_type_map pr_reviews pr_comments) p =
     (if \<exists>l \<in> set (logins_of pr_reviews p @ logins_of pr_comments p).
            \<exists>k \<in> set BOT_KEYWORDS. \<exists>ps ss. lower l = ps @ k @ ss
      then ''bot''
      else if logins_of pr_reviews p @ logins_of pr_comments p \<noteq> [] then ''human''
      else ''none'') \<and>
   reviewer_type_map_comments_first pr_reviews pr_comments p =
     reviewer_type_map pr_reviews pr_comments p"
  using reviewer_type_label[of pr_reviews pr_comments p]
    reviewer_type_order[of pr_reviews pr_comments p]
  by (simp only: any_bot_iff simp_thms)

theorem attribution_label_witness:
  "(\<exists>l \<in> set (logins_of (Some [\<lparr>a_pr_id = Some 1, a_login = Some ''alice''\<rparr>,
                                 \<lparr>a_pr_id = Some 1, a_login = None\<rparr>]) 1 @
                 logins_of (Some [\<lparr>a_pr_id = Some 1, a_login = Some ''GitHub-Copilot[bot]''\<rparr>]) 1).
      \<exists>k \<in> set BOT_KEYWORDS. \<exists>ps ss. lower l = ps @ k @ ss) \<and>
   map_reviewer_type
     (reviewer_type_map
        (Some [\<lparr>a_pr_id = Some 1, a_login = Some ''alice''\<rparr>, \<lparr>a_pr_id = Some 1, a_login = None\<rparr>])
        (Some [\<lparr>a_pr_id = Some 1, a_login = Some ''GitHub-Copilot[bot]''\<rparr>])) 1 = ''bot'' \<and>
   reviewer_type_map_comments_first
     (Some [\<lparr>a_pr_id = Some 1, a_login = Some ''alice''\<rparr>, \<lparr>a_pr_id = Some 1, a_login = None\<rparr>])
     (Some [\<lparr>a_pr_id = Some 1, a_login = Some ''GitHub-Copilot[bot]''\<rparr>]) 1 = Some ''bot''"
proof -
  let ?R = "Some [\<lparr>a_pr_id = Some 1, a_login = Some ''alice''\<rparr>, \<lparr>a_pr_id = Some 1, a_login = None\<rparr>]"
  let ?C = "Some [\<lparr>a_pr_id = Some 1, a_login = Some ''GitHub-Copilot[bot]''\<rparr>]"
  let ?E = "\<exists>l \<in> set (logins_of ?R 1 @ logins_of ?C 1).
      \<exists>k \<in> set BOT_KEYWORDS. \<exists>ps ss. lower l = ps @ k @ ss"
  have a: "map_reviewer_type (reviewer_type_map ?R ?C) 1 = ''bot''"
    by code_simp
  have m: "reviewer_type_map ?R ?C 1 = Some ''bot''"
    by code_simp
  note t = attribution_label[of ?R ?C 1]
  from t have eq: "map_reviewer_type (reviewer_type_map ?R ?C) 1 =
      (if ?E then ''bot''
       else if logins_of ?R 1 @ logins_of ?C 1 \<noteq> [] then ''human'' else ''none'')"
    by (rule conjunct1)
  from t have sw: "reviewer_type_map_comments_first ?R ?C 1 = reviewer_type_map ?R ?C 1"
    by (rule conjunct2)
  have e: ?E
  proof (rule ccontr)
    assume "\<not> ?E"
    with eq have "map_reviewer_type (reviewer_type_map ?R ?C) 1 =
      (if logins_of ?R 1 @ logins_of ?C 1 \<noteq> [] then ''human'' else ''none'')"
      by (simp only: if_False)
    with a have "''bot'' = (if logins_of ?R 1 @ logins_of ?C 1 \<noteq> [] then ''human'' else ''none'')"
      by (simp only:)
    then show False by (simp split: if_splits)
  qed
  from sw m have s: "reviewer_type_map_comments_first ?R ?C 1 = Some ''bot''" by (simp only:)
  show ?thesis by (intro conjI e a s)
qed

text \<open>
  C10, as stated, fails: the reviews below have the columns \<open>pr_id\<close>, \<open>user\<close> and \<open>state\<close>,
  none of which is a login column the script looks for in the reviews, so the pass over
  the reviews is skipped; pull request 5 has a row in the reviews, none in the comments,
  and its reviewer type is \<open>none\<close>.
\<close>

theorem never_none_counterexample:
  "pr_rows \<lparr>columns = [''pr_id'', ''user'', ''state''],
            rows = [\<lparr>a_pr_id = Some 5, a_login = Some ''alice''\<rparr>]\<rparr> 5
     = [\<lparr>a_pr_id = Some 5, a_login = Some ''alice''\<rparr>] \<and>
   reviewer_type
     \<lparr>columns = [''pr_id'', ''user'', ''state''],
      rows = [\<lparr>a_pr_id = Some 5, a_login = Some ''alice''\<rparr>]\<rparr>
     \<lparr>columns = [''pr_id'', ''user'', ''body''], rows = []\<rparr> 5
     = ''none''"
proof -
  let ?R = "\<lparr>columns = [''pr_id'', ''user'', ''state''],
             rows = [\<lparr>a_pr_id = Some 5, a_login = Some ''alice''\<rparr>]\<rparr>"
  let ?C = "\<lparr>columns = [''pr_id'', ''user'', ''body''], rows = []\<rparr>"
  have r: "pr_rows ?R 5 = [\<lparr>a_pr_id = Some 5, a_login = Some ''alice''\<rparr>]"
    by (simp add: pr_rows_def)
  have p: "pick_login_col ?R reviews_login_candidates = None"
    by (simp add: pick_login_col_def reviews_login_candidates_def)
  have a: "analysed ?R reviews_login_candidates = None"
    by (simp add: analysed_def is_analysed_def p)
  have c: "logins_of (analysed ?C comments_login_candidates) 5 = []"
    by (simp add: logins_of_analysed pr_rows_def)
  have "reviewer_type ?R ?C 5 = ''none''"
    unfolding reviewer_type_def reviewer_type_none_iff a c by (simp add: logins_of_def)
  with r show ?thesis by (intro conjI)
qed

text \<open>
  C10, amended: a frame is analysed when it has a PR-link column (\<open>pr_id\<close> or
  \<open>pull_request_id\<close>) and a login column under one of the names the script looks for.
  For every PR, the reviewer type is \<open>none\<close> exactly when the PR has no row in an analysed
  frame, be it the reviews or the comments. A PR that has a row in an analysed frame, and
  whose rows in the analysed frames all have a missing login, is \<open>human\<close>: the missing
  logins have been replaced by the empty string and count as evidence.
\<close>

theorem never_none:
  "(reviewer_type pr_reviews pr_comments p = ''none'' \<longleftrightarrow>
      \<not> (is_analysed pr_reviews reviews_login_candidates \<and> pr_rows pr_reviews p \<noteq> []) \<and>
      \<not> (is_analysed pr_comments comments_login_candidates \<and> pr_rows pr_comments p \<noteq> [])) \<and>
   ((is_analysed pr_reviews reviews_login_candidates \<and> pr_rows pr_reviews p \<noteq> [] \<or>
     is_analysed pr_comments comments_login_candidates \<and> pr_rows pr_comments p \<noteq> []) \<and>
    (is_analysed pr_reviews reviews_login_candidates \<longrightarrow>
       (\<forall>row \<in> set (pr_rows pr_reviews p). a_login row = None)) \<and>
    (is_analysed pr_comments comments_login_candidates \<longrightarrow>
       (\<forall>row \<in> set (pr_rows pr_comments p). a_login row = None)) \<longrightarrow>
      reviewer_type pr_reviews pr_comments p = ''human'') \<and>
   (is_analysed df candidates \<longleftrightarrow>
      (''pr_id'' \<in> set (columns df) \<or> ''pull_request_id'' \<in> set (columns df)) \<and>
      (\<exists>c \<in> set candidates. c \<in> set (columns df)))"
proof -
  let ?R = "analysed pr_reviews reviews_login_candidates"
  let ?C = "analysed pr_comments comments_login_candidates"
  let ?ls = "logins_of ?R p @ logins_of ?C p"
  have e: "?ls = [] \<longleftrightarrow>
      \<not> (is_analysed pr_reviews reviews_login_candidates \<and> pr_rows pr_reviews p \<noteq> []) \<and>
      \<not> (is_analysed pr_comments comments_login_candidates \<and> pr_rows pr_comments p \<noteq> [])"
    by (simp add: logins_of_analysed)
  have one: "reviewer_type pr_reviews pr_comments p = ''none'' \<longleftrightarrow>
      \<not> (is_analysed pr_reviews reviews_login_candidates \<and> pr_rows pr_reviews p \<noteq> []) \<and>
      \<not> (is_analysed pr_comments comments_login_candidates \<and> pr_rows pr_comments p \<noteq> [])"
    unfolding reviewer_type_def reviewer_type_none_iff by (rule e)
  have two: "reviewer_type pr_reviews pr_comments p = ''human''"
    if ne: "is_analysed pr_reviews reviews_login_candidates \<and> pr_rows pr_reviews p \<noteq> [] \<or>
            is_analysed pr_comments comments_login_candidates \<and> pr_rows pr_comments p \<noteq> []"
      and ar: "is_analysed pr_reviews reviews_login_candidates \<longrightarrow>
            (\<forall>row \<in> set (pr_rows pr_reviews p). a_login row = None)"
      and ac: "is_analysed pr_comments comments_login_candidates \<longrightarrow>
            (\<forall>row \<in> set (pr_rows pr_comments p). a_login row = None)"
  proof -
    from ne e have n: "?ls \<noteq> []" by blast
    from ar ac have empty: "\<forall>l \<in> set ?ls. l = []"
      by (auto simp: logins_of_analysed fillna_str_def)
    from n empty show ?thesis
      unfolding reviewer_type_def by (rule reviewer_type_human)
  qed
  have three: "is_analysed df candidates \<longleftrightarrow>
      (''pr_id'' \<in> set (columns df) \<or> ''pull_request_id'' \<in> set (columns df)) \<and>
      (\<exists>c \<in> set candidates. c \<in> set (columns df))"
    by (auto simp: is_analysed_def pr_id_col_def pick_login_col_def find_None_iff)
  from two have two': "(is_analysed pr_reviews reviews_login_candidates \<and> pr_rows pr_reviews p \<noteq> [] \<or>
     is_analysed pr_comments comments_login_candidates \<and> pr_rows pr_comments p \<noteq> []) \<and>
    (is_analysed pr_reviews reviews_login_candidates \<longrightarrow>
       (\<forall>row \<in> set (pr_rows pr_reviews p). a_login row = None)) \<and>
    (is_analysed pr_comments comments_login_candidates \<longrightarrow>
       (\<forall>row \<in> set (pr_rows pr_comments p). a_login row = None)) \<longrightarrow>
      reviewer_type pr_reviews pr_comments p = ''human''"
    by blast
  show ?thesis by (intro conjI one two' three)
qed

theorem never_none_witness:
  "is_analysed \<lparr>columns = [''pr_id'', ''author_login''],
                rows = [\<lparr>a_pr_id = Some 5, a_login = None\<rparr>]\<rparr> reviews_login_candidates \<and>
   map a_login (pr_rows \<lparr>columns = [''pr_id'', ''author_login''],
                         rows = [\<lparr>a_pr_id = Some 5, a_login = None\<rparr>]\<rparr> 5) = [None] \<and>
   reviewer_type
     \<lparr>columns = [''pr_id'', ''author_login''], rows = [\<lparr>a_pr_id = Some 5, a_login = None\<rparr>]\<rparr>
     \<lparr>columns = [''pr_id'', ''body''], rows = [\<lparr>a_pr_id = Some 5, a_login = None\<rparr>]\<rparr> 5
     = ''human''"
proof -
  let ?R = "\<lparr>columns = [''pr_id'', ''author_login''],
             rows = [\<lparr>a_pr_id = Some 5, a_login = None\<rparr>]\<rparr>"
  let ?C = "\<lparr>columns = [''pr_id'', ''body''], rows = [\<lparr>a_pr_id = Some 5, a_login = None\<rparr>]\<rparr>"
  have ir: "is_analysed ?R reviews_login_candidates"
    by (simp add: is_analysed_def pr_id_col_def pick_login_col_def reviews_login_candidates_def)
  have ic: "\<not> is_analysed ?C comments_login_candidates"
    by (simp add: is_analysed_def pr_id_col_def pick_login_col_def comments_login_candidates_def)
  have r: "map a_login (pr_rows ?R 5) = [None]"
    by (simp add: pr_rows_def)
  have h1: "is_analysed ?R reviews_login_candidates \<and> pr_rows ?R 5 \<noteq> [] \<or>
            is_analysed ?C comments_login_candidates \<and> pr_rows ?C 5 \<noteq> []"
    using ir by (simp add: pr_rows_def)
  have h2: "is_analysed ?R reviews_login_candidates \<longrightarrow>
            (\<forall>row \<in> set (pr_rows ?R 5). a_login row = None)"
    by (simp add: pr_rows_def)
  have h3: "is_analysed ?C comments_login_candidates \<longrightarrow>
            (\<forall>row \<in> set (pr_rows ?C 5). a_login row = None)"
    using ic by (simp only: simp_thms)
  have imp: "(is_analysed ?R reviews_login_candidates \<and> pr_rows ?R 5 \<noteq> [] \<or>
         is_analysed ?C comments_login_candidates \<and> pr_rows ?C 5 \<noteq> []) \<and>
        (is_analysed ?R reviews_login_candidates \<longrightarrow>
           (\<forall>row \<in> set (pr_rows ?R 5). a_login row = None)) \<and>
        (is_analysed ?C comments_login_candidates \<longrightarrow>
           (\<forall>row \<in> set (pr_rows ?C 5). a_login row = None)) \<longrightarrow>
        reviewer_type ?R ?C 5 = ''human''"
    by (rule never_none[of ?R ?C 5, THEN conjunct2, THEN conjunct1])
  have hyp: "(is_analysed ?R reviews_login_candidates \<and> pr_rows ?R 5 \<noteq> [] \<or>
         is_analysed ?C comments_login_candidates \<and> pr_rows ?C 5 \<noteq> []) \<and>
        (is_analysed ?R reviews_login_candidates \<longrightarrow>
           (\<forall>row \<in> set (pr_rows ?R 5). a_login row = None)) \<and>
        (is_analysed ?C comments_login_candidates \<longrightarrow>
           (\<forall>row \<in> set (pr_rows ?C 5). a_login row = None))"
    by (intro conjI h1 h2 h3)
  from imp hyp have "reviewer_type ?R ?C 5 = ''human''" by (rule mp)
  with ir r show ?thesis by (intro conjI)
qed

section \<open>Cohorts\<close>

lemma snd_filter_enumerate:
  "map snd (filter (\<lambda>(i, row). P row) (enumerate n xs)) = filter P xs"
  by (induction xs arbitrary: n) auto

lemma select_rows: "map snd (select P xs) = filter P xs"
  by (simp add: select_def snd_filter_enumerate)

lemma select_member:
  "(i, row) \<in> set (select P xs) \<longleftrightarrow> i < length xs \<and> xs ! i = row \<and> P row"
  by (auto simp: select_def in_set_enumerate_eq)

lemma select_positions: "distinct (map fst (select P xs))"
  by (simp add: select_def distinct_map_filter)

lemma length_three_way:
  assumes "\<And>x. \<not> (P x \<and> Q x)"
  shows "length (filter P xs) + length (filter Q xs)
         + length (filter (\<lambda>x. \<not> P x \<and> \<not> Q x) xs) = length xs"
  using assms by (induction xs) auto

text \<open>
  C5, as stated, fails: the splitter produces the two cohorts and no third set. In the
  frame below the first pull request has no \<open>closed_loop\<close>; it is in neither cohort, and the
  sizes of what the splitter produces do not add up to the size of the frame. The first
  result, where the script reports the sizes, has the two cohort counts and the total, and
  no count of the pull requests left out.
\<close>

theorem cohort_split_counterexample:
  "closed_loop_prs
     [\<lparr>closed_loop = None, merged = Some 1, review_duration_hours = Some 5, n_comments = Some 0\<rparr>,
      \<lparr>closed_loop = Some 1, merged = Some 1, review_duration_hours = Some 2, n_comments = Some 1\<rparr>]
     = [(1, \<lparr>closed_loop = Some 1, merged = Some 1, review_duration_hours = Some 2,
              n_comments = Some 1\<rparr>)] \<and>
   open_loop_prs
     [\<lparr>closed_loop = None, merged = Some 1, review_duration_hours = Some 5, n_comments = Some 0\<rparr>,
      \<lparr>closed_loop = Some 1, merged = Some 1, review_duration_hours = Some 2, n_comments = Some 1\<rparr>]
     = [] \<and>
   length
     [\<lparr>closed_loop = None, merged = Some 1, review_duration_hours = Some 5, n_comments = Some 0\<rparr>,
      \<lparr>closed_loop = Some 1, merged = Some 1, review_duration_hours = Some 2, n_comments = Some 1\<rparr>]
     = 2 \<and>
   length (closed_loop_prs
     [\<lparr>closed_loop = None, merged = Some 1, review_duration_hours = Some 5, n_comments = Some 0\<rparr>,
      \<lparr>closed_loop = Some 1, merged = Some 1, review_duration_hours = Some 2, n_comments = Some 1\<rparr>])
   + length (open_loop_prs
     [\<lparr>closed_loop = None, merged = Some 1, review_duration_hours = Some 5, n_comments = Some 0\<rparr>,
      \<lparr>closed_loop = Some 1, merged = Some 1, review_duration_hours = Some 2, n_comments = Some 1\<rparr>])
     = 1 \<and>
   map (map fst) (results_3_1
     [\<lparr>closed_loop = None, merged = Some 1, review_duration_hours = Some 5, n_comments = Some 0\<rparr>,
      \<lparr>closed_loop = Some 1, merged = Some 1, review_duration_hours = Some 2, n_comments = Some 1\<rparr>])
     = [[''metric'', ''value'', ''closed_loop_count'', ''open_loop_count'', ''total'']]"
proof -
  let ?d = "[\<lparr>closed_loop = None, merged = Some 1, review_duration_hours = Some 5, n_comments = Some 0\<rparr>,
             \<lparr>closed_loop = Some 1, merged = Some 1, review_duration_hours = Some 2, n_comments = Some 1\<rparr>]"
  have c: "closed_loop_prs ?d = [(1, \<lparr>closed_loop = Some 1, merged = Some 1,
      review_duration_hours = Some 2, n_comments = Some 1\<rparr>)]"
    by (simp add: closed_loop_prs_def select_def)
  have o: "open_loop_prs ?d = []"
    by (simp add: open_loop_prs_def select_def)
  have l: "length ?d = 2" by simp
  have k: "map (map fst) (results_3_1 ?d) =
      [[''metric'', ''value'', ''closed_loop_count'', ''open_loop_count'', ''total'']]"
    by (simp add: results_3_1_def)
  have s: "length (closed_loop_prs ?d) + length (open_loop_prs ?d) = 1"
    unfolding c o by simp
  show ?thesis by (intro conjI c o l s k)
qed

text \<open>
  C5, amended: for every frame \<open>rq3_data\<close> the splitter produces two cohorts. The
  closed-loop cohort is the rows with \<open>closed_loop = 1\<close> and the open-loop cohort the rows
  with \<open>closed_loop = 0\<close>, each such row once, at its position and in the order of the frame.
  No position is in both cohorts. The sizes of the two cohorts and the number of rows whose
  \<open>closed_loop\<close> is neither 1 nor 0 add up to the size of the frame. A row whose
  \<open>closed_loop\<close> is missing is in neither cohort.
\<close>

theorem cohort_split:
  "map snd (closed_loop_prs d) = filter (\<lambda>row. closed_loop row = Some 1) d \<and>
   map snd (open_loop_prs d) = filter (\<lambda>row. closed_loop row = Some 0) d \<and>
   (\<forall>i row. (i, row) \<in> set (closed_loop_prs d) \<longleftrightarrow>
      i < length d \<and> d ! i = row \<and> closed_loop row = Some 1) \<and>
   (\<forall>i row. (i, row) \<in> set (open_loop_prs d) \<longleftrightarrow>
      i < length d \<and> d ! i = row \<and> closed_loop row = Some 0) \<and>
   distinct (map fst (closed_loop_prs d)) \<and>
   distinct (map fst (open_loop_prs d)) \<and>
   fst ` set (closed_loop_prs d) \<inter> fst ` set (open_loop_prs d) = {} \<and>
   set (closed_loop_prs d) \<inter> set (open_loop_prs d) = {} \<and>
   length (closed_loop_prs d) + length (open_loop_prs d) +
     length (filter (\<lambda>row. closed_loop row \<noteq> Some 1 \<and> closed_loop row \<noteq> Some 0) d) = length d \<and>
   (\<forall>i < length d. closed_loop (d ! i) = None \<longrightarrow>
      (i, d ! i) \<notin> set (closed_loop_prs d) \<and> (i, d ! i) \<notin> set (open_loop_prs d))"
proof -
  let ?P = "\<lambda>row. closed_loop row = Some 1"
  let ?Q = "\<lambda>row. closed_loop row = Some 0"
  have c: "map snd (closed_loop_prs d) = filter ?P d"
    by (simp add: closed_loop_prs_def select_rows)
  have o: "map snd (open_loop_prs d) = filter ?Q d"
    by (simp add: open_loop_prs_def select_rows)
  have mc: "\<forall>i row. (i, row) \<in> set (closed_loop_prs d) \<longleftrightarrow>
      i < length d \<and> d ! i = row \<and> closed_loop row = Some 1"
    by (simp add: closed_loop_prs_def select_member)
  have mo: "\<forall>i row. (i, row) \<in> set (open_loop_prs d) \<longleftrightarrow>
      i < length d \<and> d ! i = row \<and> closed_loop row = Some 0"
    by (simp add: open_loop_prs_def select_member)
  have dc: "distinct (map fst (closed_loop_prs d))"
    by (simp add: closed_loop_prs_def select_positions)
  have do: "distinct (map fst (open_loop_prs d))"
    by (simp add: open_loop_prs_def select_positions)
  have pos: "fst ` set (closed_loop_prs d) \<inter> fst ` set (open_loop_prs d) = {}"
  proof (rule ccontr)
    assume "fst ` set (closed_loop_prs d) \<inter> fst ` set (open_loop_prs d) \<noteq> {}"
    then obtain i r r' where "(i, r) \<in> set (closed_loop_prs d)" "(i, r') \<in> set (open_loop_prs d)"
      by force
    with mc mo have "closed_loop (d ! i) = Some 1" "closed_loop (d ! i) = Some 0" by auto
    then show False by simp
  qed
  then have dis: "set (closed_loop_prs d) \<inter> set (open_loop_prs d) = {}" by force
  have "length (closed_loop_prs d) = length (filter ?P d)"
    "length (open_loop_prs d) = length (filter ?Q d)"
    using c o by (metis length_map)+
  then have len: "length (closed_loop_prs d) + length (open_loop_prs d) +
     length (filter (\<lambda>row. closed_loop row \<noteq> Some 1 \<and> closed_loop row \<noteq> Some 0) d) = length d"
    using length_three_way[of ?P ?Q d] by simp
  have miss: "\<forall>i < length d. closed_loop (d ! i) = None \<longrightarrow>
      (i, d ! i) \<notin> set (closed_loop_prs d) \<and> (i, d ! i) \<notin> set (open_loop_prs d)"
    using mc mo by simp
  show ?thesis by (intro conjI c o mc mo dc do pos dis len miss)
qed

theorem cohort_split_witness:
  "closed_loop
     ([\<lparr>closed_loop = Some 1, merged = Some 1, review_duration_hours = Some 2, n_comments = Some 1\<rparr>,
       \<lparr>closed_loop = Some 0, merged = Some 0, review_duration_hours = Some 9, n_comments = None\<rparr>,
       \<lparr>closed_loop = None, merged = Some 1, review_duration_hours = Some 5, n_comments = Some 0\<rparr>]
      ! 2) = None \<and>
   (2, \<lparr>closed_loop = None, merged = Some 1, review_duration_hours = Some 5, n_comments = Some 0\<rparr>)
     \<notin> set (closed_loop_prs
         [\<lparr>closed_loop = Some 1, merged = Some 1, review_duration_hours = Some 2, n_comments = Some 1\<rparr>,
          \<lparr>closed_loop = Some 0, merged = Some 0, review_duration_hours = Some 9, n_comments = None\<rparr>,
          \<lparr>closed_loop = None, merged = Some 1, review_duration_hours = Some 5, n_comments = Some 0\<rparr>]) \<and>
   (2, \<lparr>closed_loop = None, merged = Some 1, review_duration_hours = Some 5, n_comments = Some 0\<rparr>)
     \<notin> set (open_loop_prs
         [\<lparr>closed_loop = Some 1, merged = Some 1, review_duration_hours = Some 2, n_comments = Some 1\<rparr>,
          \<lparr>closed_loop = Some 0, merged = Some 0, review_duration_hours = Some 9, n_comments = None\<rparr>,
          \<lparr>closed_loop = None, merged = Some 1, review_duration_hours = Some 5, n_comments = Some 0\<rparr>])"
proof -
  let ?m = "\<lparr>closed_loop = None, merged = Some 1, review_duration_hours = Some 5,
             n_comments = Some 0\<rparr>"
  let ?d = "[\<lparr>closed_loop = Some 1, merged = Some 1, review_duration_hours = Some 2, n_comments = Some 1\<rparr>,
             \<lparr>closed_loop = Some 0, merged = Some 0, review_duration_hours = Some 9, n_comments = None\<rparr>,
             ?m]"
  have i: "2 < length ?d" by simp
  have n: "?d ! 2 = ?m" by simp
  have h: "closed_loop (?d ! 2) = None" by simp
  from cohort_split[of ?d]
  have all: "\<forall>i < length ?d. closed_loop (?d ! i) = None \<longrightarrow>
      (i, ?d ! i) \<notin> set (closed_loop_prs ?d) \<and> (i, ?d ! i) \<notin> set (open_loop_prs ?d)"
    by (elim conjE)
  from all have "2 < length ?d \<longrightarrow> closed_loop (?d ! 2) = None \<longrightarrow>
      (2, ?d ! 2) \<notin> set (closed_loop_prs ?d) \<and> (2, ?d ! 2) \<notin> set (open_loop_prs ?d)"
    by (rule spec)
  from this i have "closed_loop (?d ! 2) = None \<longrightarrow>
      (2, ?d ! 2) \<notin> set (closed_loop_prs ?d) \<and> (2, ?d ! 2) \<notin> set (open_loop_prs ?d)"
    by (rule mp)
  from this h
  have "(2, ?d ! 2) \<notin> set (closed_loop_prs ?d) \<and> (2, ?d ! 2) \<notin> set (open_loop_prs ?d)"
    by (rule mp)
  then have ab: "(2, ?m) \<notin> set (closed_loop_prs ?d) \<and> (2, ?m) \<notin> set (open_loop_prs ?d)"
    unfolding n .
  from ab have a: "(2, ?m) \<notin> set (closed_loop_prs ?d)" by (rule conjunct1)
  from ab have b: "(2, ?m) \<notin> set (open_loop_prs ?d)" by (rule conjunct2)
  from h a b show ?thesis by (intro conjI)
qed

section \<open>Results of the closed-loop comparison\<close>

lemma map_of_duration_row:
  "map_of (duration_row g xs) ''metric'' = Some (Str ''review_duration_hours'')"
  "map_of (duration_row g xs) ''group'' = Some (Str g)"
  "map_of (duration_row g xs) ''test'' = None"
  "map_of (duration_row g xs) ''effect_size'' = None"
  by (simp_all add: duration_row_def)

lemma map_of_comments_row:
  "map_of (comments_row g xs) ''metric'' = Some (Str ''n_comments'')"
  "map_of (comments_row g xs) ''group'' = Some (Str g)"
  "map_of (comments_row g xs) ''test'' = None"
  "map_of (comments_row g xs) ''effect_size'' = None"
  by (simp_all add: comments_row_def)

lemma map_of_merge_row:
  "map_of (merge_row g fr) ''metric'' = Some (Str ''merge_rate'')"
  "map_of (merge_row g fr) ''group'' = Some (Str g)"
  "map_of (merge_row g fr) ''test'' = None"
  "map_of (merge_row g fr) ''effect_size'' = None"
  by (simp_all add: merge_row_def)

lemma map_of_mann_whitney_row:
  "map_of (mann_whitney_row m a b) ''metric'' = Some (Str m)"
  "map_of (mann_whitney_row m a b) ''group'' = None"
  "map_of (mann_whitney_row m a b) ''test'' = Some (Str ''Mann-Whitney U'')"
  "map_of (mann_whitney_row m a b) ''effect_size'' = Some (Cliffs_d a b)"
  by (simp_all add: mann_whitney_row_def)

lemma is_test_rows:
  "\<not> is_test m t (duration_row g xs)"
  "\<not> is_test m t (comments_row g ys)"
  "\<not> is_test m t (merge_row g fr)"
  "is_test m t (mann_whitney_row m' a b) \<longleftrightarrow> m' = m \<and> t = ''Mann-Whitney U''"
     apply (simp add: is_test_def map_of_duration_row)
    apply (simp add: is_test_def map_of_comments_row)
   apply (simp add: is_test_def map_of_merge_row)
  apply (simp add: is_test_def map_of_mann_whitney_row eq_commute[of "''Mann-Whitney U''" t])
  done

lemma is_description_rows:
  "is_description m g (duration_row g' xs) \<longleftrightarrow> m = ''review_duration_hours'' \<and> g = g'"
  "is_description m g (comments_row g' ys) \<longleftrightarrow> m = ''n_comments'' \<and> g = g'"
  "is_description m g (merge_row g' fr) \<longleftrightarrow> m = ''merge_rate'' \<and> g = g'"
  "\<not> is_description m g (mann_whitney_row m' a b)"
     apply (simp add: is_description_def map_of_duration_row eq_commute)
    apply (simp add: is_description_def map_of_comments_row eq_commute)
   apply (simp add: is_description_def map_of_merge_row eq_commute)
  apply (simp add: is_description_def map_of_mann_whitney_row)
  done

lemma reports_rank_sum_rows:
  "\<not> reports_rank_sum (duration_row g xs)"
  "\<not> reports_rank_sum (comments_row g ys)"
  "\<not> reports_rank_sum (merge_row g fr)"
  "reports_rank_sum (mann_whitney_row m a b)"
     apply (simp add: reports_rank_sum_def has_key_def duration_row_def)
    apply (simp add: reports_rank_sum_def has_key_def comments_row_def)
   apply (simp add: reports_rank_sum_def has_key_def merge_row_def)
  apply (simp add: reports_rank_sum_def map_of_mann_whitney_row)
  done

lemma filter_results_3_1:
  "filter (is_test m t) (results_3_1 d) = []"
  "filter (is_description m g) (results_3_1 d) = []"
  "filter reports_rank_sum (results_3_1 d) = []"
    apply (simp add: results_3_1_def is_test_def)
   apply (simp add: results_3_1_def is_description_def)
  apply (simp add: results_3_1_def reports_rank_sum_def has_key_def)
  done

lemma filter_results_3_2:
  "filter (is_test m t) (results_3_2 d) = []"
  "filter reports_rank_sum (results_3_2 d) = []"
  "filter (is_description m g) (results_3_2 d) =
     (if m = ''review_duration_hours'' \<and> g = ''closed-loop'' \<and> closed_loop_duration d \<noteq> []
      then [duration_row ''closed-loop'' (closed_loop_duration d)] else []) @
     (if m = ''review_duration_hours'' \<and> g = ''open-loop'' \<and> open_loop_duration d \<noteq> []
      then [duration_row ''open-loop'' (open_loop_duration d)] else [])"
    apply (simp add: results_3_2_def is_test_rows)
   apply (simp add: results_3_2_def reports_rank_sum_rows)
  apply (simp add: results_3_2_def is_description_rows)
  done

lemma filter_results_3_3:
  "filter (is_test m t) (results_3_3 d) = []"
  "filter reports_rank_sum (results_3_3 d) = []"
  "m \<noteq> ''merge_rate'' \<Longrightarrow> filter (is_description m g) (results_3_3 d) = []"
    apply (simp add: results_3_3_def is_test_rows)
   apply (simp add: results_3_3_def reports_rank_sum_rows)
  apply (simp add: results_3_3_def is_description_rows)
  done

lemma filter_results_3_4:
  "filter (is_test m t) (results_3_4 d) = []"
  "filter reports_rank_sum (results_3_4 d) = []"
  "filter (is_description m g) (results_3_4 d) =
     (if m = ''n_comments'' \<and> g = ''closed-loop'' \<and> closed_loop_comments d \<noteq> []
      then [comments_row ''closed-loop'' (closed_loop_comments d)] else []) @
     (if m = ''n_comments'' \<and> g = ''open-loop'' \<and> open_loop_comments d \<noteq> []
      then [comments_row ''open-loop'' (open_loop_comments d)] else [])"
    apply (simp add: results_3_4_def is_test_rows)
   apply (simp add: results_3_4_def reports_rank_sum_rows)
  apply (simp add: results_3_4_def is_description_rows)
  done

lemma filter_results_4_1:
  "filter (is_description m g) (results_4_1 d) = []"
  "filter reports_rank_sum (results_4_1 d) = results_4_1 d"
  "t \<noteq> ''Mann-Whitney U'' \<Longrightarrow> filter (is_test m t) (results_4_1 d) = []"
  "filter (is_test m ''Mann-Whitney U'') (results_4_1 d) =
     (if m = ''review_duration_hours'' then results_4_1 d else [])"
     apply (simp add: results_4_1_def is_description_rows)
    apply (simp add: results_4_1_def reports_rank_sum_rows)
   apply (simp add: results_4_1_def is_test_rows)
  apply (simp add: results_4_1_def is_test_rows)
  done

lemma filter_results_4_3:
  "filter (is_description m g) (results_4_3 d) = []"
  "filter reports_rank_sum (results_4_3 d) = results_4_3 d"
  "t \<noteq> ''Mann-Whitney U'' \<Longrightarrow> filter (is_test m t) (results_4_3 d) = []"
  "filter (is_test m ''Mann-Whitney U'') (results_4_3 d) =
     (if m = ''n_comments'' then results_4_3 d else [])"
     apply (simp add: results_4_3_def is_description_rows)
    apply (simp add: results_4_3_def reports_rank_sum_rows)
   apply (simp add: results_4_3_def is_test_rows)
  apply (simp add: results_4_3_def is_test_rows)
  done

lemma filter_results_4_2:
  "filter (is_description m g) (results_4_2 d) = []"
  "filter reports_rank_sum (results_4_2 d) = []"
  "t \<noteq> ''Chi-square'' \<Longrightarrow> filter (is_test m t) (results_4_2 d) = []"
  "filter (is_test ''merge_rate'' ''Chi-square'') (results_4_2 d) = results_4_2 d"
     apply (simp add: results_4_2_def is_description_def)
    apply (simp add: results_4_2_def reports_rank_sum_def has_key_def)
   apply (simp add: results_4_2_def is_test_def)
  apply (simp add: results_4_2_def is_test_def)
  done

lemma rank_sums_of_results:
  "filter reports_rank_sum (results d) = results_4_1 d @ results_4_3 d"
  by (simp add: results_def filter_results_3_1 filter_results_3_2 filter_results_3_3
      filter_results_3_4 filter_results_4_1 filter_results_4_2 filter_results_4_3)

lemma tests_of_results:
  "filter (is_test ''review_duration_hours'' ''Mann-Whitney U'') (results d) = results_4_1 d"
  "filter (is_test ''n_comments'' ''Mann-Whitney U'') (results d) = results_4_3 d"
  "filter (is_test ''merge_rate'' ''Chi-square'') (results d) = results_4_2 d"
    apply (simp add: results_def filter_results_3_1 filter_results_3_2 filter_results_3_3
      filter_results_3_4 filter_results_4_1 filter_results_4_2 filter_results_4_3)
   apply (simp add: results_def filter_results_3_1 filter_results_3_2 filter_results_3_3
      filter_results_3_4 filter_results_4_1 filter_results_4_2 filter_results_4_3)
  apply (simp add: results_def filter_results_3_1 filter_results_3_2 filter_results_3_3
      filter_results_3_4 filter_results_4_1 filter_results_4_2 filter_results_4_3)
  done

lemma descriptions_of_results:
  "filter (is_description ''review_duration_hours'' ''closed-loop'') (results d) =
     (if closed_loop_duration d = [] then []
      else [duration_row ''closed-loop'' (closed_loop_duration d)])"
  "filter (is_description ''review_duration_hours'' ''open-loop'') (results d) =
     (if open_loop_duration d = [] then []
      else [duration_row ''open-loop'' (open_loop_duration d)])"
  "filter (is_description ''n_comments'' ''closed-loop'') (results d) =
     (if closed_loop_comments d = [] then []
      else [comments_row ''closed-loop'' (closed_loop_comments d)])"
  "filter (is_description ''n_comments'' ''open-loop'') (results d) =
     (if open_loop_comments d = [] then []
      else [comments_row ''open-loop'' (open_loop_comments d)])"
     apply (simp add: results_def filter_results_3_1 filter_results_3_2 filter_results_3_3
      filter_results_3_4 filter_results_4_1 filter_results_4_2 filter_results_4_3)
    apply (simp add: results_def filter_results_3_1 filter_results_3_2 filter_results_3_3
      filter_results_3_4 filter_results_4_1 filter_results_4_2 filter_results_4_3)
   apply (simp add: results_def filter_results_3_1 filter_results_3_2 filter_results_3_3
      filter_results_3_4 filter_results_4_1 filter_results_4_2 filter_results_4_3)
  apply (simp add: results_def filter_results_3_1 filter_results_3_2 filter_results_3_3
      filter_results_3_4 filter_results_4_1 filter_results_4_2 filter_results_4_3)
  done

lemma dropna_Some:
  "map Some (dropna col frame) = filter (\<lambda>c. c \<noteq> None) (map (\<lambda>(i, row). col row) frame)"
  by (induction frame) (auto simp: dropna_def map_filter_simps split: option.splits)

lemma crosstab_pairs_Nil:
  "crosstab_pairs d = [] \<longleftrightarrow> \<not> (\<exists>row \<in> set d. closed_loop row \<noteq> None \<and> merged row \<noteq> None)"
  by (induction d) (auto simp: crosstab_pairs_def map_filter_simps split: option.splits)

lemma table_size_pos:
  "0 < table_size d \<longleftrightarrow> (\<exists>row \<in> set d. closed_loop row \<noteq> None \<and> merged row \<noteq> None)"
proof -
  have "0 < table_size d \<longleftrightarrow> crosstab_pairs d \<noteq> []"
    by (simp add: table_size_def crosstab_index_def crosstab_columns_def)
  then show ?thesis by (simp add: crosstab_pairs_Nil)
qed

text \<open>
  C7, as stated, fails: the closed-loop cohort below has one pull request and no
  non-missing review duration, and \<open>results\<close> has no row describing the review duration of
  the closed-loop cohort, so no row with a count of 0 either.
\<close>

theorem describe_empty_counterexample:
  "closed_loop_prs
     [\<lparr>closed_loop = Some 1, merged = Some 1, review_duration_hours = None, n_comments = Some 2\<rparr>]
     = [(0, \<lparr>closed_loop = Some 1, merged = Some 1, review_duration_hours = None,
              n_comments = Some 2\<rparr>)] \<and>
   closed_loop_duration
     [\<lparr>closed_loop = Some 1, merged = Some 1, review_duration_hours = None, n_comments = Some 2\<rparr>]
     = [] \<and>
   filter (is_description ''review_duration_hours'' ''closed-loop'')
     (results
        [\<lparr>closed_loop = Some 1, merged = Some 1, review_duration_hours = None,
          n_comments = Some 2\<rparr>])
     = []"
proof -
  let ?d = "[\<lparr>closed_loop = Some 1, merged = Some 1, review_duration_hours = None,
              n_comments = Some 2\<rparr>]"
  have c: "closed_loop_prs ?d = [(0, \<lparr>closed_loop = Some 1, merged = Some 1,
      review_duration_hours = None, n_comments = Some 2\<rparr>)]"
    by (simp add: closed_loop_prs_def select_def)
  have cd: "closed_loop_duration ?d = []"
    by (simp add: closed_loop_duration_def c dropna_def)
  have "filter (is_description ''review_duration_hours'' ''closed-loop'') (results ?d) = []"
    unfolding descriptions_of_results cd by simp
  with c cd show ?thesis by (intro conjI)
qed

text \<open>
  C7, amended: for each cohort and each of the fields \<open>review_duration_hours\<close> and
  \<open>n_comments\<close> the described sample is the column of the cohort without its missing
  values, in order. When the sample is empty, \<open>results\<close> has no row describing the field
  for the cohort; otherwise it has exactly one, computed from the sample, and the count of
  that row is the size of the sample.
\<close>

theorem describe_rows:
  "(map Some (closed_loop_duration d) =
      filter (\<lambda>c. c \<noteq> None) (map (\<lambda>(i, row). review_duration_hours row) (closed_loop_prs d)) \<and>
    filter (is_description ''review_duration_hours'' ''closed-loop'') (results d) =
      (if closed_loop_duration d = [] then []
       else [duration_row ''closed-loop'' (closed_loop_duration d)])) \<and>
   (map Some (open_loop_duration d) =
      filter (\<lambda>c. c \<noteq> None) (map (\<lambda>(i, row). review_duration_hours row) (open_loop_prs d)) \<and>
    filter (is_description ''review_duration_hours'' ''open-loop'') (results d) =
      (if open_loop_duration d = [] then []
       else [duration_row ''open-loop'' (open_loop_duration d)])) \<and>
   (map Some (closed_loop_comments d) =
      filter (\<lambda>c. c \<noteq> None) (map (\<lambda>(i, row). n_comments row) (closed_loop_prs d)) \<and>
    filter (is_description ''n_comments'' ''closed-loop'') (results d) =
      (if closed_loop_comments d = [] then []
       else [comments_row ''closed-loop'' (closed_loop_comments d)])) \<and>
   (map Some (open_loop_comments d) =
      filter (\<lambda>c. c \<noteq> None) (map (\<lambda>(i, row). n_comments row) (open_loop_prs d)) \<and>
    filter (is_description ''n_comments'' ''open-loop'') (results d) =
      (if open_loop_comments d = [] then []
       else [comments_row ''open-loop'' (open_loop_comments d)])) \<and>
   map_of (duration_row g xs) ''count'' = Some (Len (length xs)) \<and>
   map_of (comments_row g xs) ''count'' = Some (Len (length xs))"
proof -
  have 1: "map Some (closed_loop_duration d) =
      filter (\<lambda>c. c \<noteq> None) (map (\<lambda>(i, row). review_duration_hours row) (closed_loop_prs d))"
    unfolding closed_loop_duration_def by (rule dropna_Some)
  have 2: "map Some (open_loop_duration d) =
      filter (\<lambda>c. c \<noteq> None) (map (\<lambda>(i, row). review_duration_hours row) (open_loop_prs d))"
    unfolding open_loop_duration_def by (rule dropna_Some)
  have 3: "map Some (closed_loop_comments d) =
      filter (\<lambda>c. c \<noteq> None) (map (\<lambda>(i, row). n_comments row) (closed_loop_prs d))"
    unfolding closed_loop_comments_def by (rule dropna_Some)
  have 4: "map Some (open_loop_comments d) =
      filter (\<lambda>c. c \<noteq> None) (map (\<lambda>(i, row). n_comments row) (open_loop_prs d))"
    unfolding open_loop_comments_def by (rule dropna_Some)
  have 5: "map_of (duration_row g xs) ''count'' = Some (Len (length xs))"
    by (simp add: duration_row_def)
  have 6: "map_of (comments_row g xs) ''count'' = Some (Len (length xs))"
    by (simp add: comments_row_def)
  show ?thesis by (intro conjI 1 2 3 4 5 6 descriptions_of_results)
qed

theorem describe_rows_witness:
  "filter (is_description ''n_comments'' ''closed-loop'')
     (results
        [\<lparr>closed_loop = Some 1, merged = Some 1, review_duration_hours = Some 2, n_comments = None\<rparr>,
         \<lparr>closed_loop = Some 0, merged = Some 0, review_duration_hours = Some 9, n_comments = Some 3\<rparr>])
     = [] \<and>
   filter (is_description ''review_duration_hours'' ''closed-loop'')
     (results
        [\<lparr>closed_loop = Some 1, merged = Some 1, review_duration_hours = Some 2, n_comments = None\<rparr>,
         \<lparr>closed_loop = Some 0, merged = Some 0, review_duration_hours = Some 9, n_comments = Some 3\<rparr>])
     = [duration_row ''closed-loop'' [2]]"
proof -
  let ?d = "[\<lparr>closed_loop = Some 1, merged = Some 1, review_duration_hours = Some 2, n_comments = None\<rparr>,
             \<lparr>closed_loop = Some 0, merged = Some 0, review_duration_hours = Some 9, n_comments = Some 3\<rparr>]"
  have cd: "closed_loop_duration ?d = [2]"
    by (simp add: closed_loop_duration_def closed_loop_prs_def select_def dropna_def)
  have cc: "closed_loop_comments ?d = []"
    by (simp add: closed_loop_comments_def closed_loop_prs_def select_def dropna_def)
  have a: "filter (is_description ''review_duration_hours'' ''closed-loop'') (results ?d) =
      (if closed_loop_duration ?d = [] then []
       else [duration_row ''closed-loop'' (closed_loop_duration ?d)])"
    by (rule describe_rows[of ?d, THEN conjunct1, THEN conjunct2])
  have b: "filter (is_description ''n_comments'' ''closed-loop'') (results ?d) =
      (if closed_loop_comments ?d = [] then []
       else [comments_row ''closed-loop'' (closed_loop_comments ?d)])"
    by (rule describe_rows[of ?d, THEN conjunct2, THEN conjunct2, THEN conjunct1,
          THEN conjunct2])
  show ?thesis unfolding a b cd cc by simp
qed

text \<open>
  C8: the rows of \<open>results\<close> that report a rank-sum test or an effect size are exactly the
  Mann-Whitney row of \<open>review_duration_hours\<close>, present if and only if both duration
  samples are non-empty, followed by the Mann-Whitney row of \<open>n_comments\<close>, present if and
  only if both comment samples are non-empty; the test and Cliff's delta are applied to the
  two samples only. In the summary the p-value and the effect size of a metric are those
  of the test when both samples are non-empty and the text \<open>N/A\<close> otherwise.
\<close>

theorem rank_sum_only_when_both_nonempty:
  "filter reports_rank_sum (results d) =
     (if closed_loop_duration d \<noteq> [] \<and> open_loop_duration d \<noteq> []
      then [mann_whitney_row ''review_duration_hours''
              (closed_loop_duration d) (open_loop_duration d)]
      else []) @
     (if closed_loop_comments d \<noteq> [] \<and> open_loop_comments d \<noteq> []
      then [mann_whitney_row ''n_comments'' (closed_loop_comments d) (open_loop_comments d)]
      else []) \<and>
   P_Value (summary d ! 1) =
     (if closed_loop_duration d \<noteq> [] \<and> open_loop_duration d \<noteq> []
      then Fmt ''.4f'' (MWU_p_value (closed_loop_duration d) (open_loop_duration d))
      else Str ''N/A'') \<and>
   Effect_Size (summary d ! 1) =
     (if closed_loop_duration d \<noteq> [] \<and> open_loop_duration d \<noteq> []
      then Fmt_effect (Fmt ''.3f'' (Cliffs_d (closed_loop_duration d) (open_loop_duration d)))
             (Cliffs_interpretation (closed_loop_duration d) (open_loop_duration d))
      else Str ''N/A'') \<and>
   P_Value (summary d ! 3) =
     (if closed_loop_comments d \<noteq> [] \<and> open_loop_comments d \<noteq> []
      then Fmt ''.4f'' (MWU_p_value (closed_loop_comments d) (open_loop_comments d))
      else Str ''N/A'') \<and>
   Effect_Size (summary d ! 3) =
     (if closed_loop_comments d \<noteq> [] \<and> open_loop_comments d \<noteq> []
      then Fmt_effect (Fmt ''.3f'' (Cliffs_d (closed_loop_comments d) (open_loop_comments d)))
             (Cliffs_interpretation (closed_loop_comments d) (open_loop_comments d))
      else Str ''N/A'')"
proof -
  have rows: "filter reports_rank_sum (results d) =
     (if closed_loop_duration d \<noteq> [] \<and> open_loop_duration d \<noteq> []
      then [mann_whitney_row ''review_duration_hours''
              (closed_loop_duration d) (open_loop_duration d)]
      else []) @
     (if closed_loop_comments d \<noteq> [] \<and> open_loop_comments d \<noteq> []
      then [mann_whitney_row ''n_comments'' (closed_loop_comments d) (open_loop_comments d)]
      else [])"
    by (simp add: rank_sums_of_results results_4_1_def results_4_3_def)
  have s1: "summary d ! 1 =
      metric_summary ''Review Duration (hours)'' (closed_loop_duration d) (open_loop_duration d)"
    by (simp add: summary_def)
  have s3: "summary d ! 3 =
      metric_summary ''Number of Comments'' (closed_loop_comments d) (open_loop_comments d)"
    by (simp add: summary_def numeral_3_eq_3)
  have p: "P_Value (metric_summary n a b) =
      (if a \<noteq> [] \<and> b \<noteq> [] then Fmt ''.4f'' (MWU_p_value a b) else Str ''N/A'')" for n a b
    by (simp add: metric_summary_def)
  have e: "Effect_Size (metric_summary n a b) =
      (if a \<noteq> [] \<and> b \<noteq> []
       then Fmt_effect (Fmt ''.3f'' (Cliffs_d a b)) (Cliffs_interpretation a b)
       else Str ''N/A'')" for n a b
    by (simp add: metric_summary_def)
  show ?thesis
    unfolding s1 s3 p e by (intro conjI rows refl)
qed

theorem rank_sum_only_when_both_nonempty_witness:
  "filter reports_rank_sum
     (results
        [\<lparr>closed_loop = Some 1, merged = Some 1, review_duration_hours = Some 2, n_comments = None\<rparr>,
         \<lparr>closed_loop = Some 0, merged = Some 0, review_duration_hours = Some 9, n_comments = Some 3\<rparr>])
     = [mann_whitney_row ''review_duration_hours'' [2] [9]] \<and>
   P_Value
     (summary
        [\<lparr>closed_loop = Some 1, merged = Some 1, review_duration_hours = Some 2, n_comments = None\<rparr>,
         \<lparr>closed_loop = Some 0, merged = Some 0, review_duration_hours = Some 9, n_comments = Some 3\<rparr>]
      ! 3) = Str ''N/A''"
proof -
  let ?d = "[\<lparr>closed_loop = Some 1, merged = Some 1, review_duration_hours = Some 2, n_comments = None\<rparr>,
             \<lparr>closed_loop = Some 0, merged = Some 0, review_duration_hours = Some 9, n_comments = Some 3\<rparr>]"
  have cd: "closed_loop_duration ?d = [2]"
    by (simp add: closed_loop_duration_def closed_loop_prs_def select_def dropna_def)
  have od: "open_loop_duration ?d = [9]"
    by (simp add: open_loop_duration_def open_loop_prs_def select_def dropna_def)
  have cc: "closed_loop_comments ?d = []"
    by (simp add: closed_loop_comments_def closed_loop_prs_def select_def dropna_def)
  have oc: "open_loop_comments ?d = [3]"
    by (simp add: open_loop_comments_def open_loop_prs_def select_def dropna_def)
  from rank_sum_only_when_both_nonempty[of ?d]
  show ?thesis unfolding cd od cc oc by simp
qed

text \<open>
  C6, as stated, fails: in the frame below every pull request is closed-loop, so the
  open-loop cohort has no record and the table of cohort by outcome has a single row; the
  chi-square test is run on it all the same and its row is in \<open>results\<close>.
\<close>

theorem chi_square_degenerate_counterexample:
  "open_loop_prs
     [\<lparr>closed_loop = Some 1, merged = Some 1, review_duration_hours = Some 2, n_comments = Some 1\<rparr>,
      \<lparr>closed_loop = Some 1, merged = Some 0, review_duration_hours = Some 9, n_comments = Some 3\<rparr>]
     = [] \<and>
   contingency_table
     [\<lparr>closed_loop = Some 1, merged = Some 1, review_duration_hours = Some 2, n_comments = Some 1\<rparr>,
      \<lparr>closed_loop = Some 1, merged = Some 0, review_duration_hours = Some 9, n_comments = Some 3\<rparr>]
     = [[1, 1]] \<and>
   filter (is_test ''merge_rate'' ''Chi-square'')
     (results
        [\<lparr>closed_loop = Some 1, merged = Some 1, review_duration_hours = Some 2, n_comments = Some 1\<rparr>,
         \<lparr>closed_loop = Some 1, merged = Some 0, review_duration_hours = Some 9, n_comments = Some 3\<rparr>])
     = [[(''metric'', Str ''merge_rate''),
         (''test'', Str ''Chi-square''),
         (''statistic'', Chi2_statistic [[1, 1]]),
         (''p_value'', Chi2_p_value [[1, 1]]),
         (''degrees_of_freedom'', Chi2_dof [[1, 1]])]]"
proof -
  let ?d = "[\<lparr>closed_loop = Some 1, merged = Some 1, review_duration_hours = Some 2, n_comments = Some 1\<rparr>,
             \<lparr>closed_loop = Some 1, merged = Some 0, review_duration_hours = Some 9, n_comments = Some 3\<rparr>]"
  have o: "open_loop_prs ?d = []"
    by (simp add: open_loop_prs_def select_def)
  have p: "crosstab_pairs ?d = [(1, 1), (1, 0)]"
    by (simp add: crosstab_pairs_def)
  have i: "crosstab_index ?d = [1]"
    by (simp add: crosstab_index_def p)
  have c: "crosstab_columns ?d = [0, 1]"
    by (simp add: crosstab_columns_def p)
  have t: "contingency_table ?d = [[1, 1]]"
    by (simp add: contingency_table_def p i c)
  have s: "table_size ?d = 2"
    by (simp add: table_size_def i c)
  have "filter (is_test ''merge_rate'' ''Chi-square'') (results ?d) =
      [[(''metric'', Str ''merge_rate''),
        (''test'', Str ''Chi-square''),
        (''statistic'', Chi2_statistic [[1, 1]]),
        (''p_value'', Chi2_p_value [[1, 1]]),
        (''degrees_of_freedom'', Chi2_dof [[1, 1]])]]"
    unfolding tests_of_results by (simp add: results_4_2_def s t)
  with o t show ?thesis by (intro conjI)
qed

text \<open>
  C6, amended: the chi-square test is skipped, with no row in \<open>results\<close> and the text
  \<open>N/A\<close> for its p-value in the summary, exactly when the table of cohort by outcome has
  no cell, that is when no pull request has both \<open>closed_loop\<close> and \<open>merged\<close> present.
  Otherwise the test is applied to the table and \<open>results\<close> has exactly one row for it.
\<close>

theorem chi_square_skipped_iff:
  "filter (is_test ''merge_rate'' ''Chi-square'') (results d) =
     (if \<exists>row \<in> set d. closed_loop row \<noteq> None \<and> merged row \<noteq> None
      then [[(''metric'', Str ''merge_rate''),
             (''test'', Str ''Chi-square''),
             (''statistic'', Chi2_statistic (contingency_table d)),
             (''p_value'', Chi2_p_value (contingency_table d)),
             (''degrees_of_freedom'', Chi2_dof (contingency_table d))]]
      else []) \<and>
   P_Value (summary d ! 2) =
     (if \<exists>row \<in> set d. closed_loop row \<noteq> None \<and> merged row \<noteq> None
      then Fmt ''.4f'' (Chi2_p_value (contingency_table d))
      else Str ''N/A'') \<and>
   (contingency_table d = [] \<longleftrightarrow>
      \<not> (\<exists>row \<in> set d. closed_loop row \<noteq> None \<and> merged row \<noteq> None))"
proof -
  have a: "filter (is_test ''merge_rate'' ''Chi-square'') (results d) =
     (if \<exists>row \<in> set d. closed_loop row \<noteq> None \<and> merged row \<noteq> None
      then [[(''metric'', Str ''merge_rate''),
             (''test'', Str ''Chi-square''),
             (''statistic'', Chi2_statistic (contingency_table d)),
             (''p_value'', Chi2_p_value (contingency_table d)),
             (''degrees_of_freedom'', Chi2_dof (contingency_table d))]]
      else [])"
    unfolding tests_of_results results_4_2_def table_size_pos by (rule refl)
  have "summary d ! 2 =
     \<lparr>Metric = ''Merge Rate'',
       Closed_Loop_Median = Fmt ''.2%'' (merge_rate (closed_loop_prs d)),
       Open_Loop_Median = Fmt ''.2%'' (merge_rate (open_loop_prs d)),
       Closed_Loop_Mean = Str ''N/A'', Open_Loop_Mean = Str ''N/A'',
       P_Value = (if table_size d > 0
                  then Fmt ''.4f'' (Chi2_p_value (contingency_table d))
                  else Str ''N/A''),
       Effect_Size = Str ''N/A''\<rparr>"
    by (simp add: summary_def numeral_2_eq_2)
  then have b: "P_Value (summary d ! 2) =
     (if \<exists>row \<in> set d. closed_loop row \<noteq> None \<and> merged row \<noteq> None
      then Fmt ''.4f'' (Chi2_p_value (contingency_table d))
      else Str ''N/A'')"
    by (simp add: table_size_pos)
  have "set (crosstab_index d) = fst ` set (crosstab_pairs d)"
    by (simp add: crosstab_index_def)
  then have "crosstab_index d = [] \<longleftrightarrow> crosstab_pairs d = []"
    by (metis image_is_empty set_empty)
  then have "contingency_table d = [] \<longleftrightarrow> crosstab_pairs d = []"
    by (simp add: contingency_table_def)
  then have c: "contingency_table d = [] \<longleftrightarrow>
      \<not> (\<exists>row \<in> set d. closed_loop row \<noteq> None \<and> merged row \<noteq> None)"
    by (simp only: crosstab_pairs_Nil)
  show ?thesis by (intro conjI a b c)
qed

theorem chi_square_skipped_iff_witness:
  "filter (is_test ''merge_rate'' ''Chi-square'')
     (results [\<lparr>closed_loop = Some 1, merged = None, review_duration_hours = Some 2,
                 n_comments = Some 1\<rparr>,
               \<lparr>closed_loop = Some 0, merged = Some 1, review_duration_hours = None,
                 n_comments = None\<rparr>])
     = [[(''metric'', Str ''merge_rate''),
         (''test'', Str ''Chi-square''),
         (''statistic'', Chi2_statistic [[1]]),
         (''p_value'', Chi2_p_value [[1]]),
         (''degrees_of_freedom'', Chi2_dof [[1]])]] \<and>
   filter (is_test ''merge_rate'' ''Chi-square'')
     (results [\<lparr>closed_loop = None, merged = Some 1, review_duration_hours = Some 2,
                 n_comments = Some 1\<rparr>])
     = []"
proof -
  let ?d = "[\<lparr>closed_loop = Some 1, merged = None, review_duration_hours = Some 2,
               n_comments = Some 1\<rparr>,
             \<lparr>closed_loop = Some 0, merged = Some 1, review_duration_hours = None,
               n_comments = None\<rparr>]"
  let ?e = "[\<lparr>closed_loop = None, merged = Some 1, review_duration_hours = Some 2,
               n_comments = Some 1\<rparr>]"
  have h: "\<exists>row \<in> set ?d. closed_loop row \<noteq> None \<and> merged row \<noteq> None" by simp
  have n: "\<not> (\<exists>row \<in> set ?e. closed_loop row \<noteq> None \<and> merged row \<noteq> None)" by simp
  have p: "crosstab_pairs ?d = [(0, 1)]"
    by (simp add: crosstab_pairs_def)
  have t: "contingency_table ?d = [[1]]"
    by (simp add: contingency_table_def crosstab_index_def crosstab_columns_def p)
  have a: "filter (is_test ''merge_rate'' ''Chi-square'') (results ?d) =
      [[(''metric'', Str ''merge_rate''),
        (''test'', Str ''Chi-square''),
        (''statistic'', Chi2_statistic [[1]]),
        (''p_value'', Chi2_p_value [[1]]),
        (''degrees_of_freedom'', Chi2_dof [[1]])]]"
    using chi_square_skipped_iff[of ?d] h unfolding t by (simp only: if_True)
  have b: "filter (is_test ''merge_rate'' ''Chi-square'') (results ?e) = []"
    using chi_square_skipped_iff[of ?e] n by (simp only: if_False)
  show ?thesis by (intro conjI a b)
qed

end
